theory Spec2Isabelle
  imports Complex_Main "HOL-Library.AList" "HOL-Library.Sublist" "HOL-Library.Multiset"
begin

text \<open>
  A shallow embedding of the order execution engine: the mock DEX router, the socket manager
  that publishes status updates, the job queue, the order processor that drives an order
  through its statuses, and the intake route. Each section follows one source file; what the
  program meets outside itself (random draws, database and queue failures, the outcome of a
  socket write) is a parameter of the function that meets it. The theorems come after the
  definitions, one section per component.
\<close>

section \<open>JavaScript numbers\<close>

text \<open>
  A JavaScript number is an IEEE 754 double: NaN, an infinity, or a finite value, given here
  by the real it denotes (the sign of zero is not kept). An arithmetic operation on finite
  values returns the exact result rounded to the nearest double, ties to even, and an
  infinity when the rounded value lies beyond the largest double.
\<close>

datatype number = NaN | Infinity | NegInfinity | Num real

text \<open>The nearest integer, ties to the even one.\<close>

definition round_half_even :: "real \<Rightarrow> int" where
  "round_half_even y =
     (let f = \<lfloor>y\<rfloor>; d = y - of_int f
      in if d < 1 / 2 then f
         else if 1 / 2 < d then f + 1
         else if even f then f else f + 1)"

text \<open>
  The binary exponent of a value, not below that of the subnormal range, and the distance
  between neighbouring doubles at that exponent (53 significant bits).
\<close>

definition exponent :: "real \<Rightarrow> int" where
  "exponent x = max \<lfloor>log 2 \<bar>x\<bar>\<rfloor> (- 1022)"

definition ulp :: "real \<Rightarrow> real" where
  "ulp x = 2 powr (of_int (exponent x) - 52)"

definition rnd :: "real \<Rightarrow> real" where
  "rnd x = of_int (round_half_even (x / ulp x)) * ulp x"

text \<open>The double an exact result is rounded to.\<close>

definition fl :: "real \<Rightarrow> number" where
  "fl x =
     (if x = 0 then Num 0
      else if 2 ^ 1024 \<le> \<bar>rnd x\<bar> then (if 0 < x then Infinity else NegInfinity)
      else Num (rnd x))"

text \<open>A decimal literal of the source text denotes the double nearest to it.\<close>

definition lit :: "real \<Rightarrow> number" where
  "lit x = fl x"

fun negative :: "number \<Rightarrow> bool" where
  "negative (Num x) = (x < 0)"
| "negative NegInfinity = True"
| "negative n = False"

fun jneg :: "number \<Rightarrow> number" where
  "jneg (Num x) = Num (- x)"
| "jneg Infinity = NegInfinity"
| "jneg NegInfinity = Infinity"
| "jneg NaN = NaN"

text \<open>The operators \<^verbatim>\<open>*\<close>, \<^verbatim>\<open>+\<close>, \<^verbatim>\<open>-\<close> and \<^verbatim>\<open>>\<close> on numbers.\<close>

fun jmul :: "number \<Rightarrow> number \<Rightarrow> number" where
  "jmul (Num x) (Num y) = fl (x * y)"
| "jmul NaN b = NaN"
| "jmul a NaN = NaN"
| "jmul a b =
     (if a = Num 0 \<or> b = Num 0 then NaN
      else if negative a = negative b then Infinity else NegInfinity)"

fun jadd :: "number \<Rightarrow> number \<Rightarrow> number" where
  "jadd (Num x) (Num y) = fl (x + y)"
| "jadd NaN b = NaN"
| "jadd a NaN = NaN"
| "jadd Infinity NegInfinity = NaN"
| "jadd NegInfinity Infinity = NaN"
| "jadd Infinity b = Infinity"
| "jadd a Infinity = Infinity"
| "jadd NegInfinity b = NegInfinity"
| "jadd a NegInfinity = NegInfinity"

definition jsub :: "number \<Rightarrow> number \<Rightarrow> number" where
  "jsub a b = jadd a (jneg b)"

fun jgt :: "number \<Rightarrow> number \<Rightarrow> bool" where
  "jgt (Num x) (Num y) = (y < x)"
| "jgt NaN b = False"
| "jgt a NaN = False"
| "jgt Infinity b = (b \<noteq> Infinity)"
| "jgt a NegInfinity = (a \<noteq> NegInfinity)"
| "jgt a b = False"

text \<open>JavaScript's \<^verbatim>\<open>!x\<close> on a number: NaN and zero are falsy.\<close>

definition falsy_number :: "number \<Rightarrow> bool" where
  "falsy_number n = (n = NaN \<or> n = Num 0)"

text \<open>The finite numbers and the reals they denote.\<close>

fun is_finite :: "number \<Rightarrow> bool" where
  "is_finite (Num x) = True"
| "is_finite n = False"

fun value_of :: "number \<Rightarrow> real" where
  "value_of (Num x) = x"
| "value_of n = 0"

text \<open>The largest finite double.\<close>

definition max_double :: real where
  "max_double = 2 ^ 1024 - 2 ^ 971"

text \<open>
  The unit roundoff of the doubles: the largest relative error of one rounding to nearest
  within the normal range.
\<close>

definition unit_roundoff :: real where
  "unit_roundoff = 1 / 2 ^ 53"


section \<open>Order types (types/order.types.ts)\<close>

text \<open>
  The enumerations and interfaces of \<^verbatim>\<open>order.types.ts\<close>. The order type of an order is
  kept as the string of the request, which the intake route casts to \<^verbatim>\<open>OrderType\<close>
  without a check.
\<close>

datatype OrderType = MARKET | LIMIT | SNIPER

datatype OrderStatus = PENDING | ROUTING | BUILDING | SUBMITTED | CONFIRMED | FAILED

record Order =
  order_id :: string
  tokenIn :: string
  tokenOut :: string
  amount :: number
  orderType :: string
  status :: OrderStatus
  executedPrice :: "number option"
  txHash :: "string option"
  order_dex :: "string option"

record DexQuote =
  dex :: string
  price :: number
  fee :: number
  estimatedOutput :: number
  impact :: "number option"

text \<open>
  A thrown JavaScript value: an \<^verbatim>\<open>Error\<close> object with its message, or any other value
  (given by its string conversion).
\<close>

datatype thrown = Error string | NonError string

text \<open>\<^verbatim>\<open>error instanceof Error ? error.message : 'Unknown error'\<close>\<close>

fun error_message :: "thrown \<Rightarrow> string" where
  "error_message (Error m) = m"
| "error_message (NonError v) = ''Unknown error''"

text \<open>The template literal \<^verbatim>\<open>`${error}`\<close>: an Error prints as \<^verbatim>\<open>Error: message\<close>.\<close>

fun to_string :: "thrown \<Rightarrow> string" where
  "to_string (Error m) = ''Error: '' @ m"
| "to_string (NonError v) = v"


section \<open>The mock DEX router (services/dexRouter.ts)\<close>

text \<open>
  \<^verbatim>\<open>getRaydiumQuote\<close> and \<^verbatim>\<open>getMeteorQuote\<close> draw two values of \<^verbatim>\<open>Math.random()\<close>,
  one for the price and one for the impact; the draws, doubles from 0 up to but not
  including 1, are parameters here, in the order the source makes them. The token names only
  reach the logger. The arithmetic is that of the source, operation by operation:
  \<^verbatim>\<open>amount * price * (1 - fee)\<close> multiplies from the left.
\<close>

definition getRaydiumQuote :: "string \<Rightarrow> string \<Rightarrow> number \<Rightarrow> real \<Rightarrow> real \<Rightarrow> DexQuote" where
  "getRaydiumQuote tIn tOut amt rnd_price rnd_impact =
     (let p = jadd (lit 0.98) (jmul (Num rnd_price) (lit 0.04));
          f = lit 0.003;
          out = jmul (jmul amt p) (jsub (Num 1) f)
      in \<lparr> dex = ''Raydium'', price = p, fee = f, estimatedOutput = out,
           impact = Some (jmul (Num rnd_impact) (lit 0.01)) \<rparr>)"

definition getMeteorQuote :: "string \<Rightarrow> string \<Rightarrow> number \<Rightarrow> real \<Rightarrow> real \<Rightarrow> DexQuote" where
  "getMeteorQuote tIn tOut amt rnd_price rnd_impact =
     (let p = jadd (lit 0.97) (jmul (Num rnd_price) (lit 0.05));
          f = lit 0.002;
          out = jmul (jmul amt p) (jsub (Num 1) f)
      in \<lparr> dex = ''Meteora'', price = p, fee = f, estimatedOutput = out,
           impact = Some (jmul (Num rnd_impact) (lit 0.008)) \<rparr>)"

definition selectBestRoute :: "DexQuote \<Rightarrow> DexQuote \<Rightarrow> DexQuote" where
  "selectBestRoute raydiumQuote meteoraQuote =
     (if jgt (estimatedOutput raydiumQuote) (estimatedOutput meteoraQuote)
      then raydiumQuote else meteoraQuote)"

text \<open>
  What one call of \<^verbatim>\<open>executeBestRoute\<close> meets outside the program: whether each quote
  request rejects (the unit tests mock such a rejection), the random draws, and the 32
  random bytes of the transaction hash, already in hexadecimal.
\<close>

record route_env =
  raydium_rejects :: "thrown option"
  meteora_rejects :: "thrown option"
  raydium_rnd_price :: real
  raydium_rnd_impact :: real
  meteora_rnd_price :: real
  meteora_rnd_impact :: real
  mock_txHash :: string

record execution_result =
  res_txHash :: string
  res_executedPrice :: number
  res_dex :: string

text \<open>
  \<^verbatim>\<open>Promise.all\<close> over the two quotes rejects as soon as one of them does; the
  \<^verbatim>\<open>catch\<close> wraps whatever was thrown into a new Error.
\<close>

definition executeBestRoute :: "route_env \<Rightarrow> Order \<Rightarrow> thrown + execution_result" where
  "executeBestRoute env order =
     (case raydium_rejects env of
        Some e \<Rightarrow> Inl (Error (''Route execution failed: '' @ to_string e))
      | None \<Rightarrow>
         (case meteora_rejects env of
            Some e \<Rightarrow> Inl (Error (''Route execution failed: '' @ to_string e))
          | None \<Rightarrow>
             (let raydiumQuote = getRaydiumQuote (tokenIn order) (tokenOut order) (amount order)
                    (raydium_rnd_price env) (raydium_rnd_impact env);
                  meteoraQuote = getMeteorQuote (tokenIn order) (tokenOut order) (amount order)
                    (meteora_rnd_price env) (meteora_rnd_impact env);
                  bestQuote = selectBestRoute raydiumQuote meteoraQuote
              in Inr \<lparr> res_txHash = mock_txHash env,
                       res_executedPrice = price bestQuote,
                       res_dex = dex bestQuote \<rparr>)))"

text \<open>
  A quote for an amount is within floating-point tolerance of the formula when amount,
  price, fee and estimated output are finite and the estimated output differs from the exact
  product \<open>amount \<times> price \<times> (1 - fee)\<close> of the quote's own price and fee by at most four
  unit roundoffs, relative to that product (the three roundings of the computation account
  for a little over three).
\<close>

definition exact_output :: "number \<Rightarrow> DexQuote \<Rightarrow> real" where
  "exact_output amt q = value_of amt * value_of (price q) * (1 - value_of (fee q))"

definition within_tolerance :: "number \<Rightarrow> DexQuote \<Rightarrow> bool" where
  "within_tolerance amt q =
     (is_finite amt \<and> is_finite (price q) \<and> is_finite (fee q) \<and> is_finite (estimatedOutput q)
      \<and> \<bar>value_of (estimatedOutput q) - exact_output amt q\<bar>
          \<le> 4 * unit_roundoff * \<bar>exact_output amt q\<bar>)"

text \<open>
  A quote of Raydium for the amount \<^verbatim>\<open>parseFloat("1.79e308")\<close>, with the draw 0.625 for the
  price.
\<close>

definition overflow_amount :: number where
  "overflow_amount = lit (179 * 10 ^ 306)"

definition overflow_quote :: DexQuote where
  "overflow_quote = getRaydiumQuote ''SOL'' ''USDC'' overflow_amount (5 / 8) (1 / 2)"

text \<open>The quotes of the unit tests of \<^verbatim>\<open>selectBestRoute\<close>, written with literals.\<close>

definition test_quote :: "string \<Rightarrow> real \<Rightarrow> real \<Rightarrow> real \<Rightarrow> real \<Rightarrow> DexQuote" where
  "test_quote d p f out i =
     \<lparr> dex = d, price = lit p, fee = lit f, estimatedOutput = lit out,
       impact = Some (lit i) \<rparr>"


section \<open>The status publisher (services/websocketManager.ts)\<close>

text \<open>
  A socket of the \<^verbatim>\<open>ws\<close> library, as far as the manager uses it: its ready state, the
  frames written to it, and the order ids that the \<^verbatim>\<open>close\<close> and \<^verbatim>\<open>error\<close> handlers
  installed by \<^verbatim>\<open>registerConnection\<close> will delete from the registry. The time stamp of a
  frame is the wall clock and is left out.
\<close>

datatype ready_state = CONNECTING | OPEN | CLOSING | CLOSED

datatype update_data =
    NoData
  | ExecutionData string string number
  | ErrorData string

datatype frame =
    StatusUpdate string OrderStatus update_data
  | InitialResponse string OrderStatus string
  | ErrorResponse string "string option"

record socket =
  readyState :: ready_state
  sent :: "frame list"
  close_handlers :: "string list"

text \<open>
  The manager's state: the \<^verbatim>\<open>connections\<close> map from order id to socket, and the sockets
  themselves, addressed by reference, since the map holds references to shared objects.
  A JavaScript \<^verbatim>\<open>Map\<close> keeps its entries in insertion order: \<^verbatim>\<open>set\<close> is
  \<^const>\<open>AList.update\<close>, \<^verbatim>\<open>delete\<close> is \<^const>\<open>AList.delete\<close>, \<^verbatim>\<open>get\<close> is
  \<^const>\<open>map_of\<close>.
\<close>

type_synonym sock_ref = nat

record WebSocketManager =
  connections :: "(string \<times> sock_ref) list"
  sockets :: "sock_ref \<Rightarrow> socket"

definition new_WebSocketManager :: "(sock_ref \<Rightarrow> socket) \<Rightarrow> WebSocketManager" where
  "new_WebSocketManager heap = \<lparr> connections = [], sockets = heap \<rparr>"

definition hasConnection :: "WebSocketManager \<Rightarrow> string \<Rightarrow> bool" where
  "hasConnection m orderId = (map_of (connections m) orderId \<noteq> None)"

definition getConnectionCount :: "WebSocketManager \<Rightarrow> nat" where
  "getConnectionCount m = length (connections m)"

text \<open>
  \<^verbatim>\<open>socket.close()\<close> of the \<^verbatim>\<open>ws\<close> library: a closed socket stays closed, any other
  is closing afterwards. \<^verbatim>\<open>socket.send(data)\<close> writes the frame on an open socket; on a
  socket that is closing or closed the frame is dropped.
\<close>

definition socket_close :: "sock_ref \<Rightarrow> WebSocketManager \<Rightarrow> WebSocketManager" where
  "socket_close s m =
     (if readyState (sockets m s) = CLOSED then m
      else m\<lparr> sockets := (sockets m)(s := (sockets m s)\<lparr> readyState := CLOSING \<rparr>) \<rparr>)"

definition socket_send :: "sock_ref \<Rightarrow> frame \<Rightarrow> WebSocketManager \<Rightarrow> WebSocketManager" where
  "socket_send s f m =
     (if readyState (sockets m s) = OPEN
      then m\<lparr> sockets := (sockets m)(s := (sockets m s)\<lparr> sent := sent (sockets m s) @ [f] \<rparr>) \<rparr>
      else m)"

definition closeConnection :: "string \<Rightarrow> WebSocketManager \<Rightarrow> WebSocketManager" where
  "closeConnection orderId m =
     (case map_of (connections m) orderId of
        None \<Rightarrow> m
      | Some s \<Rightarrow>
         (let m1 = (if readyState (sockets m s) = OPEN then socket_close s m else m)
          in m1\<lparr> connections := AList.delete orderId (connections m1) \<rparr>))"

definition registerConnection :: "string \<Rightarrow> sock_ref \<Rightarrow> WebSocketManager \<Rightarrow> WebSocketManager" where
  "registerConnection orderId s m =
     (let m1 = (if hasConnection m orderId then closeConnection orderId m else m);
          m2 = m1\<lparr> connections := AList.update orderId s (connections m1) \<rparr>
      in m2\<lparr> sockets := (sockets m2)
                (s := (sockets m2 s)\<lparr> close_handlers := close_handlers (sockets m2 s) @ [orderId] \<rparr>) \<rparr>)"

text \<open>
  How one \<^verbatim>\<open>socket.send(data, callback)\<close> ends: the frame is written, the callback
  receives an error, or the call itself throws.
\<close>

datatype send_outcome = Written | CallbackError thrown | SendThrows thrown

text \<open>
  The body of the \<^verbatim>\<open>try\<close> of \<^verbatim>\<open>sendStatusUpdate\<close>; \<open>Inl\<close> is a throw. The callback of
  \<^verbatim>\<open>send\<close> is run with the call.
\<close>

definition sendStatusUpdate_try ::
  "send_outcome \<Rightarrow> string \<Rightarrow> OrderStatus \<Rightarrow> update_data \<Rightarrow> WebSocketManager
     \<Rightarrow> thrown + WebSocketManager" where
  "sendStatusUpdate_try outcome orderId st additionalData m =
     (case map_of (connections m) orderId of
        None \<Rightarrow> Inr m
      | Some s \<Rightarrow>
         if readyState (sockets m s) \<noteq> OPEN
         then Inr (m\<lparr> connections := AList.delete orderId (connections m) \<rparr>)
         else
           (case outcome of
              Written \<Rightarrow>
                Inr (m\<lparr> sockets := (sockets m)
                      (s := (sockets m s)\<lparr> sent := sent (sockets m s)
                                @ [StatusUpdate orderId st additionalData] \<rparr>) \<rparr>)
            | CallbackError e \<Rightarrow>
                Inr (m\<lparr> connections := AList.delete orderId (connections m) \<rparr>)
            | SendThrows e \<Rightarrow> Inl e))"

text \<open>
  \<^verbatim>\<open>sendStatusUpdate\<close>: the \<^verbatim>\<open>catch\<close> logs what the body threw and returns. The result
  is a sum so that a throw of the whole operation would show as \<open>Inl\<close>.
\<close>

definition sendStatusUpdate ::
  "send_outcome \<Rightarrow> string \<Rightarrow> OrderStatus \<Rightarrow> update_data \<Rightarrow> WebSocketManager
     \<Rightarrow> thrown + WebSocketManager" where
  "sendStatusUpdate outcome orderId st additionalData m =
     (case sendStatusUpdate_try outcome orderId st additionalData m of
        Inl e \<Rightarrow> Inr m
      | Inr m' \<Rightarrow> Inr m')"

text \<open>
  The \<^verbatim>\<open>close\<close> (or \<^verbatim>\<open>error\<close>) event of a socket: every handler installed on it deletes
  its order id from the registry.
\<close>

definition socket_event :: "sock_ref \<Rightarrow> WebSocketManager \<Rightarrow> WebSocketManager" where
  "socket_event s m =
     m\<lparr> connections := fold AList.delete (close_handlers (sockets m s)) (connections m) \<rparr>"

text \<open>
  The channels the registry holds for one order id, and the registry's own invariant: no
  order id has two entries.
\<close>

definition channels_of :: "WebSocketManager \<Rightarrow> string \<Rightarrow> sock_ref list" where
  "channels_of m orderId = map snd (filter (\<lambda>kv. fst kv = orderId) (connections m))"

definition registry_ok :: "WebSocketManager \<Rightarrow> bool" where
  "registry_ok m = distinct (map fst (connections m))"

text \<open>A heap of fresh sockets, for the examples.\<close>

definition fresh_socket :: "ready_state \<Rightarrow> socket" where
  "fresh_socket r = \<lparr> readyState = r, sent = [], close_handlers = [] \<rparr>"

definition example_manager :: WebSocketManager where
  "example_manager =
     \<lparr> connections = [(''order-1'', 0), (''order-2'', 1)],
       sockets = (\<lambda>r. if r = 0 then fresh_socket OPEN else fresh_socket CLOSED) \<rparr>"

text \<open>A manager of open sockets in which socket 0 has been registered for an order.\<close>

definition registered_manager :: WebSocketManager where
  "registered_manager =
     registerConnection ''order-1'' 0 (new_WebSocketManager (\<lambda>r. fresh_socket OPEN))"


section \<open>The job queue (services/orderQueue.ts)\<close>

text \<open>
  The options object the constructor of \<^verbatim>\<open>OrderQueueService\<close> passes to BullMQ as
  \<^verbatim>\<open>defaultJobOptions\<close>. Delays are in milliseconds.
\<close>

datatype backoff_kind = Fixed | Exponential

record BackoffOptions =
  backoff_type :: backoff_kind
  backoff_delay :: nat

record JobsOptions =
  attempts :: nat
  backoff :: BackoffOptions
  removeOnComplete :: nat
  removeOnFail :: nat
  jobId :: "string option"

definition defaultJobOptions :: JobsOptions where
  "defaultJobOptions =
     \<lparr> attempts = 3,
       backoff = \<lparr> backoff_type = Exponential, backoff_delay = 1000 \<rparr>,
       removeOnComplete = 100,
       removeOnFail = 50,
       jobId = None \<rparr>"

text \<open>
  Modelled from the spec: the delay BullMQ (a library, not under src/) waits before a retry,
  for the two built-in strategies. The specification reads the exponential one as the base
  delay, doubling with every further attempt; \<open>attemptsMade\<close> counts the attempts that
  have failed so far.
\<close>

definition retry_delay :: "BackoffOptions \<Rightarrow> nat \<Rightarrow> nat" where
  "retry_delay b attemptsMade =
     (case backoff_type b of
        Fixed \<Rightarrow> backoff_delay b
      | Exponential \<Rightarrow> 2 ^ (attemptsMade - 1) * backoff_delay b)"

text \<open>The delays before the retries of a job that fails every attempt.\<close>

definition retry_delays :: "JobsOptions \<Rightarrow> nat list" where
  "retry_delays opts = map (retry_delay (backoff opts)) [1 ..< attempts opts]"

text \<open>The job payload \<^verbatim>\<open>CreateOrderDTO & { id: string }\<close>.\<close>

record OrderJobData =
  data_id :: string
  data_tokenIn :: string
  data_tokenOut :: string
  data_amount :: number
  data_orderType :: string

datatype job_state = Waiting | Active | Delayed | Completed | Failed

record Job =
  job_id :: string
  job_name :: string
  job_data :: OrderJobData
  job_opts :: JobsOptions
  job_state :: job_state

text \<open>A job is outstanding while it is waiting, active or delayed.\<close>

definition outstanding :: "Job \<Rightarrow> bool" where
  "outstanding j = (job_state j = Waiting \<or> job_state j = Active \<or> job_state j = Delayed)"

text \<open>
  Modelled from the spec: \<^verbatim>\<open>Queue.add\<close> of BullMQ (a library, not under src/). The
  specification: a job is keyed by the id given to \<^verbatim>\<open>add\<close>; if a job with that key
  already exists in a non-terminal state the call creates no duplicate; otherwise the job is
  created, waiting, with the queue's default options under the options of the call. The
  specification leaves open what a retained finished job with the same key does to a new
  \<^verbatim>\<open>add\<close>: \<open>retained_blocks\<close> says whether it suppresses it too.
\<close>

definition Queue_add ::
  "bool \<Rightarrow> JobsOptions \<Rightarrow> string \<Rightarrow> OrderJobData \<Rightarrow> string \<Rightarrow> Job list \<Rightarrow> Job \<times> Job list" where
  "Queue_add retained_blocks defaults name payload jid q =
     (case find (\<lambda>j. job_id j = jid \<and> (outstanding j \<or> retained_blocks)) q of
        Some j \<Rightarrow> (j, q)
      | None \<Rightarrow>
         (let j = \<lparr> job_id = jid, job_name = name, job_data = payload,
                    job_opts = defaults\<lparr> jobId := Some jid \<rparr>, job_state = Waiting \<rparr>
          in (j, q @ [j])))"

text \<open>
  \<^verbatim>\<open>addOrder\<close>: the job is added under the name \<^verbatim>\<open>process-order\<close> with
  \<^verbatim>\<open>jobId: orderData.id\<close>, and the id of the returned job is the result. \<open>fault\<close> is
  what \<^verbatim>\<open>queue.add\<close> throws when the queue's store cannot be reached; the
  \<^verbatim>\<open>catch\<close> wraps it.
\<close>

definition addOrder ::
  "thrown option \<Rightarrow> bool \<Rightarrow> OrderJobData \<Rightarrow> Job list \<Rightarrow> (thrown + string) \<times> Job list" where
  "addOrder fault retained_blocks orderData q =
     (case fault of
        Some e \<Rightarrow> (Inl (Error (''Failed to add order to queue: '' @ to_string e)), q)
      | None \<Rightarrow>
         (let (job, q') = Queue_add retained_blocks defaultJobOptions ''process-order''
                            orderData (data_id orderData) q
          in (Inr (job_id job), q')))"

text \<open>
  Modelled from the spec: what else happens to the jobs of the queue (BullMQ's worker side,
  not under src/). A job moves on from a non-terminal state only (waiting, active, delayed,
  then completed or failed); finished jobs are discarded by the retention counts.
\<close>

datatype queue_event =
    Enqueue "thrown option" OrderJobData
  | Transition string job_state
  | Discard string

fun queue_step :: "bool \<Rightarrow> queue_event \<Rightarrow> Job list \<Rightarrow> Job list" where
  "queue_step rb (Enqueue fault orderData) q = snd (addOrder fault rb orderData q)"
| "queue_step rb (Transition k st) q =
     map (\<lambda>j. if job_id j = k \<and> outstanding j then j\<lparr> job_state := st \<rparr> else j) q"
| "queue_step rb (Discard k) q = filter (\<lambda>j. \<not> (job_id j = k \<and> \<not> outstanding j)) q"

definition queue_run :: "bool \<Rightarrow> queue_event list \<Rightarrow> Job list" where
  "queue_run rb evs = fold (queue_step rb) evs []"

definition outstanding_keys :: "Job list \<Rightarrow> string list" where
  "outstanding_keys q = map job_id (filter outstanding q)"


text \<open>
  A job is keyed by its order when its id is the id of its payload, and it has the default
  configuration when its options are the queue's defaults with its own id.
\<close>

definition keyed :: "Job \<Rightarrow> bool" where
  "keyed j = (job_id j = data_id (job_data j))"

definition default_configured :: "Job \<Rightarrow> bool" where
  "default_configured j = (job_opts j = defaultJobOptions\<lparr> jobId := Some (job_id j) \<rparr>)"

definition example_job_data :: OrderJobData where
  "example_job_data =
     \<lparr> data_id = ''order-1'', data_tokenIn = ''SOL'', data_tokenOut = ''USDC'',
       data_amount = Num 100, data_orderType = ''MARKET'' \<rparr>"


section \<open>The order processor (services/orderProcessor.ts)\<close>

text \<open>
  The options the constructor of \<^verbatim>\<open>OrderProcessor\<close> passes to BullMQ's \<^verbatim>\<open>Worker\<close>.
  The duration is in milliseconds.
\<close>

record RateLimiterOptions =
  limiter_max :: nat
  limiter_duration :: nat

record WorkerOptions =
  concurrency :: nat
  limiter :: RateLimiterOptions

definition workerOptions :: WorkerOptions where
  "workerOptions =
     \<lparr> concurrency = 10,
       limiter = \<lparr> limiter_max = 100, limiter_duration = 60000 \<rparr> \<rparr>"

text \<open>
  Modelled from the spec: the Worker Pool's admission of jobs (BullMQ's worker, not under
  src/). The specification: the pool pulls jobs under a fixed concurrency ceiling and a
  sliding-window limit on job starts; a job beyond a limit waits. The pool has a clock, the
  jobs that wait (by id, oldest first), those that run, those that have finished, and the
  times of the starts so far. A poll starts the oldest waiting job when fewer jobs run than
  the ceiling and fewer starts than the limit lie within the last \<open>limiter_duration\<close>;
  otherwise it changes nothing.
\<close>

record pool =
  clock :: nat
  waiting :: "string list"
  running :: "string list"
  finished :: "string list"
  starts :: "nat list"

datatype pool_event = Arrive string | Advance nat | Poll | Finish string

definition recent_starts :: "WorkerOptions \<Rightarrow> pool \<Rightarrow> nat" where
  "recent_starts opts s =
     length (filter (\<lambda>t. clock s < t + limiter_duration (limiter opts)) (starts s))"

definition may_start :: "WorkerOptions \<Rightarrow> pool \<Rightarrow> bool" where
  "may_start opts s =
     (length (running s) < concurrency opts
      \<and> recent_starts opts s < limiter_max (limiter opts))"

fun pool_step :: "WorkerOptions \<Rightarrow> pool_event \<Rightarrow> pool \<Rightarrow> pool" where
  "pool_step opts (Arrive j) s = s\<lparr> waiting := waiting s @ [j] \<rparr>"
| "pool_step opts (Advance dt) s = s\<lparr> clock := clock s + dt \<rparr>"
| "pool_step opts Poll s =
     (case waiting s of
        [] \<Rightarrow> s
      | j # js \<Rightarrow>
          if may_start opts s
          then s\<lparr> waiting := js, running := running s @ [j], starts := clock s # starts s \<rparr>
          else s)"
| "pool_step opts (Finish j) s =
     (if j \<in> set (running s)
      then s\<lparr> running := remove1 j (running s), finished := finished s @ [j] \<rparr>
      else s)"

definition new_pool :: pool where
  "new_pool = \<lparr> clock = 0, waiting = [], running = [], finished = [], starts = [] \<rparr>"

definition pool_run :: "WorkerOptions \<Rightarrow> pool_event list \<Rightarrow> pool" where
  "pool_run opts evs = fold (pool_step opts) evs new_pool"

text \<open>The jobs that have arrived, and the starts within the window after a time.\<close>

fun arrivals :: "pool_event list \<Rightarrow> string list" where
  "arrivals [] = []"
| "arrivals (Arrive j # evs) = j # arrivals evs"
| "arrivals (ev # evs) = arrivals evs"

definition starts_in_window :: "nat \<Rightarrow> nat \<Rightarrow> pool \<Rightarrow> nat" where
  "starts_in_window a d s = length (filter (\<lambda>t. a < t \<and> t \<le> a + d) (starts s))"

text \<open>
  A pool with small limits, two jobs at a time and three starts per ten time units, and a
  run of it: five jobs arrive; two start; a third poll finds the pool full; a job finishes
  and the third starts; another finishes, but three starts lie in the window; after ten time
  units the fourth starts.
\<close>

definition small_options :: WorkerOptions where
  "small_options =
     \<lparr> concurrency = 2, limiter = \<lparr> limiter_max = 3, limiter_duration = 10 \<rparr> \<rparr>"

definition example_events :: "pool_event list" where
  "example_events =
     [Arrive ''a'', Arrive ''b'', Arrive ''c'', Arrive ''d'', Arrive ''e'',
      Poll, Poll, Poll, Finish ''a'', Poll, Finish ''b'', Poll]"

text \<open>
  The order table behind Prisma, and what a call on it does. \<open>fault\<close> is what the call
  throws when the database cannot serve it; \<^verbatim>\<open>update\<close> also throws when no row has
  the id, \<^verbatim>\<open>create\<close> when one has it already.
\<close>

type_synonym order_table = "string \<rightharpoonup> Order"

definition prisma_update ::
  "thrown option \<Rightarrow> string \<Rightarrow> (Order \<Rightarrow> Order) \<Rightarrow> order_table \<Rightarrow> thrown + order_table" where
  "prisma_update fault orderId f t =
     (case fault of
        Some e \<Rightarrow> Inl e
      | None \<Rightarrow>
         (case t orderId of
            None \<Rightarrow> Inl (Error ''Record to update not found.'')
          | Some row \<Rightarrow> Inr (t(orderId \<mapsto> f row))))"

definition prisma_findUnique ::
  "thrown option \<Rightarrow> string \<Rightarrow> order_table \<Rightarrow> thrown + Order option" where
  "prisma_findUnique fault orderId t =
     (case fault of Some e \<Rightarrow> Inl e | None \<Rightarrow> Inr (t orderId))"

definition prisma_create ::
  "thrown option \<Rightarrow> Order \<Rightarrow> order_table \<Rightarrow> thrown + order_table" where
  "prisma_create fault row t =
     (case fault of
        Some e \<Rightarrow> Inl e
      | None \<Rightarrow>
         (case t (order_id row) of
            Some old \<Rightarrow> Inl (Error ''Unique constraint failed on the fields: (`id`)'')
          | None \<Rightarrow> Inr (t(order_id row \<mapsto> row))))"

text \<open>
  The state one run of the driver works on: the order table, and the calls of
  \<^verbatim>\<open>wsEmitter.emitOrderUpdate\<close> made so far, in order.
\<close>

record driver_state =
  db :: order_table
  emitted :: "(string \<times> OrderStatus \<times> update_data) list"

text \<open>
  What one run of \<^verbatim>\<open>processOrder\<close> meets outside the program: for each database call, in
  the order of the source, what it throws if it fails, and the environment of the router.
\<close>

record attempt_env =
  fault_routing :: "thrown option"
  fault_find :: "thrown option"
  fault_building :: "thrown option"
  route :: route_env
  fault_submitted :: "thrown option"
  fault_confirmed :: "thrown option"
  fault_failed :: "thrown option"

text \<open>\<^verbatim>\<open>updateOrderStatus\<close>: the \<^verbatim>\<open>catch\<close> logs and throws the error again.\<close>

definition updateOrderStatus ::
  "thrown option \<Rightarrow> string \<Rightarrow> OrderStatus \<Rightarrow> order_table \<Rightarrow> thrown + order_table" where
  "updateOrderStatus fault orderId st t =
     prisma_update fault orderId (\<lambda>row. row\<lparr> status := st \<rparr>) t"

text \<open>
  \<^verbatim>\<open>emitWebSocketUpdate\<close>: a call of the emitter, if the processor was given one. The
  emitter the server passes is \<^verbatim>\<open>sendStatusUpdate\<close>, which does not throw.
\<close>

definition emitWebSocketUpdate ::
  "bool \<Rightarrow> string \<Rightarrow> OrderStatus \<Rightarrow> update_data \<Rightarrow> driver_state \<Rightarrow> driver_state" where
  "emitWebSocketUpdate wsEmitter orderId st d s =
     (if wsEmitter then s\<lparr> emitted := emitted s @ [(orderId, st, d)] \<rparr> else s)"

text \<open>
  The body of the \<^verbatim>\<open>try\<close> of \<^verbatim>\<open>processOrder\<close>, steps 1 to 7. The result is what the
  body threw, if it threw, with the state at that point. The two seconds of step 6 pass
  without any effect on the state.
\<close>

definition processOrder_try ::
  "attempt_env \<Rightarrow> bool \<Rightarrow> string \<Rightarrow> driver_state \<Rightarrow> thrown option \<times> driver_state" where
  "processOrder_try env wsEmitter orderId s0 =
     (case updateOrderStatus (fault_routing env) orderId ROUTING (db s0) of
        Inl e \<Rightarrow> (Some e, s0)
      | Inr t1 \<Rightarrow>
     (let s1 = emitWebSocketUpdate wsEmitter orderId ROUTING NoData (s0\<lparr> db := t1 \<rparr>) in
      case prisma_findUnique (fault_find env) orderId (db s1) of
        Inl e \<Rightarrow> (Some e, s1)
      | Inr None \<Rightarrow> (Some (Error (''Order '' @ orderId @ '' not found in database'')), s1)
      | Inr (Some order) \<Rightarrow>
     (case updateOrderStatus (fault_building env) orderId BUILDING (db s1) of
        Inl e \<Rightarrow> (Some e, s1)
      | Inr t2 \<Rightarrow>
     (let s2 = emitWebSocketUpdate wsEmitter orderId BUILDING NoData (s1\<lparr> db := t2 \<rparr>) in
      case executeBestRoute (route env) order of
        Inl e \<Rightarrow> (Some e, s2)
      | Inr executionResult \<Rightarrow>
     (case prisma_update (fault_submitted env) orderId
             (\<lambda>row. row\<lparr> status := SUBMITTED,
                          txHash := Some (res_txHash executionResult),
                          executedPrice := Some (res_executedPrice executionResult),
                          order_dex := Some (res_dex executionResult) \<rparr>) (db s2) of
        Inl e \<Rightarrow> (Some e, s2)
      | Inr t3 \<Rightarrow>
     (let executionData = ExecutionData (res_txHash executionResult) (res_dex executionResult)
                            (res_executedPrice executionResult);
          s3 = emitWebSocketUpdate wsEmitter orderId SUBMITTED executionData (s2\<lparr> db := t3 \<rparr>) in
      case updateOrderStatus (fault_confirmed env) orderId CONFIRMED (db s3) of
        Inl e \<Rightarrow> (Some e, s3)
      | Inr t4 \<Rightarrow>
          (None, emitWebSocketUpdate wsEmitter orderId CONFIRMED executionData
                   (s3\<lparr> db := t4 \<rparr>))))))))"

text \<open>
  \<^verbatim>\<open>processOrder\<close>: the \<^verbatim>\<open>catch\<close> sets the status to FAILED, emits the update with the
  message of the error, and throws the error again. When the update to FAILED throws, that
  is what leaves \<^verbatim>\<open>processOrder\<close>, and nothing is emitted.
\<close>

definition processOrder ::
  "attempt_env \<Rightarrow> bool \<Rightarrow> string \<Rightarrow> driver_state \<Rightarrow> (thrown + unit) \<times> driver_state" where
  "processOrder env wsEmitter orderId s0 =
     (case processOrder_try env wsEmitter orderId s0 of
        (None, s) \<Rightarrow> (Inr (), s)
      | (Some e, s) \<Rightarrow>
         (case updateOrderStatus (fault_failed env) orderId FAILED (db s) of
            Inl e' \<Rightarrow> (Inl e', s)
          | Inr t \<Rightarrow>
              (Inl e, emitWebSocketUpdate wsEmitter orderId FAILED (ErrorData (error_message e))
                        (s\<lparr> db := t \<rparr>))))"

text \<open>
  Modelled from the spec: the Worker Pool's handling of one job (BullMQ's worker, not under
  src/). The driver is invoked once per attempt; when it throws and attempts remain the job
  is run again, and a run that returns completes the job. The number of attempts is the one
  of \<^const>\<open>defaultJobOptions\<close>; each attempt meets an environment of its own.
\<close>

fun run_attempts ::
  "nat \<Rightarrow> attempt_env list \<Rightarrow> bool \<Rightarrow> string \<Rightarrow> driver_state \<Rightarrow> driver_state" where
  "run_attempts 0 envs wsEmitter orderId s = s"
| "run_attempts (Suc n) [] wsEmitter orderId s = s"
| "run_attempts (Suc n) (env # envs) wsEmitter orderId s =
     (case processOrder env wsEmitter orderId s of
        (Inr u, s') \<Rightarrow> s'
      | (Inl e, s') \<Rightarrow> run_attempts n envs wsEmitter orderId s')"

definition worker_run_job ::
  "attempt_env list \<Rightarrow> bool \<Rightarrow> string \<Rightarrow> driver_state \<Rightarrow> driver_state" where
  "worker_run_job envs wsEmitter orderId s =
     run_attempts (attempts defaultJobOptions) envs wsEmitter orderId s"

text \<open>
  The statuses published for one order: PENDING, which the intake route sends on the socket
  before it creates the order and the job, then the statuses the driver emits.
\<close>

definition published :: "driver_state \<Rightarrow> OrderStatus list" where
  "published s = PENDING # map (\<lambda>u. fst (snd u)) (emitted s)"

definition pipeline :: "OrderStatus list" where
  "pipeline = [PENDING, ROUTING, BUILDING, SUBMITTED, CONFIRMED]"

text \<open>A prefix of the pipeline, or such a prefix followed by a final FAILED.\<close>

definition in_pipeline_order :: "OrderStatus list \<Rightarrow> bool" where
  "in_pipeline_order xs =
     (prefix xs pipeline \<or> (xs \<noteq> [] \<and> last xs = FAILED \<and> prefix (butlast xs) pipeline))"


text \<open>An order as the intake creates it, and environments for the examples.\<close>

definition example_order :: Order where
  "example_order =
     \<lparr> order_id = ''order-1'', tokenIn = ''SOL'', tokenOut = ''USDC'', amount = Num 100,
       orderType = ''MARKET'', status = PENDING, executedPrice = None, txHash = None,
       order_dex = None \<rparr>"

definition example_state :: driver_state where
  "example_state = \<lparr> db = [''order-1'' \<mapsto> example_order], emitted = [] \<rparr>"

definition env_ok :: attempt_env where
  "env_ok =
     \<lparr> fault_routing = None, fault_find = None, fault_building = None,
       route = \<lparr> raydium_rejects = None, meteora_rejects = None,
                 raydium_rnd_price = 0.5, raydium_rnd_impact = 0.5,
                 meteora_rnd_price = 0.5, meteora_rnd_impact = 0.5,
                 mock_txHash = ''ab'' \<rparr>,
       fault_submitted = None, fault_confirmed = None, fault_failed = None \<rparr>"

definition db_down :: thrown where
  "db_down = Error ''Connection refused''"

definition env_lookup_fails :: attempt_env where
  "env_lookup_fails = env_ok\<lparr> fault_find := Some db_down \<rparr>"

definition db_timeout :: thrown where
  "db_timeout = Error ''Operation timed out''"

definition env_db_down :: attempt_env where
  "env_db_down = env_ok\<lparr> fault_find := Some db_down, fault_failed := Some db_timeout \<rparr>"


section \<open>The intake route (routes/orders.ts)\<close>

text \<open>
  The query of \<^verbatim>\<open>GET /api/orders/execute\<close>. A parameter of the query string is a string
  or is not there; \<open>query_amount\<close> is the value of \<^verbatim>\<open>parseFloat(query.amount)\<close>: a finite
  number, an infinity (the text \<^verbatim>\<open>Infinity\<close>, or a decimal beyond the doubles), or NaN
  (also when the parameter is not there).
\<close>

record execute_query =
  query_tokenIn :: "string option"
  query_tokenOut :: "string option"
  query_amount :: number
  query_orderType :: "string option"

text \<open>
  JavaScript's \<^verbatim>\<open>!x\<close> on a parameter: it is falsy when it is undefined or the empty
  string.
\<close>

definition falsy_string :: "string option \<Rightarrow> bool" where
  "falsy_string p = (p = None \<or> p = Some [])"

text \<open>
  The server as the route sees it: the order table, the jobs of the queue, the socket
  manager. A request meets a fresh UUID and the outcomes of \<^verbatim>\<open>prisma.order.create\<close> and
  of \<^verbatim>\<open>queue.add\<close>.
\<close>

record server =
  order_rows :: order_table
  jobs :: "Job list"
  manager :: WebSocketManager

record request_env =
  uuid :: string
  fault_create :: "thrown option"
  fault_enqueue :: "thrown option"
  queue_retained_blocks :: bool

definition missing_parameters :: string where
  "missing_parameters = ''Missing required parameters: tokenIn, tokenOut, amount, orderType''"

definition created_order :: "string \<Rightarrow> string \<Rightarrow> string \<Rightarrow> number \<Rightarrow> string \<Rightarrow> Order" where
  "created_order orderId tIn tOut amt oType =
     \<lparr> order_id = orderId, tokenIn = tIn, tokenOut = tOut, amount = amt, orderType = oType,
       status = PENDING, executedPrice = None, txHash = None, order_dex = None \<rparr>"

definition queued_data :: "string \<Rightarrow> string \<Rightarrow> string \<Rightarrow> number \<Rightarrow> string \<Rightarrow> OrderJobData" where
  "queued_data orderId tIn tOut amt oType =
     \<lparr> data_id = orderId, data_tokenIn = tIn, data_tokenOut = tOut, data_amount = amt,
       data_orderType = oType \<rparr>"

definition queued_job :: "string \<Rightarrow> string \<Rightarrow> string \<Rightarrow> number \<Rightarrow> string \<Rightarrow> Job" where
  "queued_job orderId tIn tOut amt oType =
     \<lparr> job_id = orderId, job_name = ''process-order'',
       job_data = queued_data orderId tIn tOut amt oType,
       job_opts = defaultJobOptions\<lparr> jobId := Some orderId \<rparr>, job_state = Waiting \<rparr>"

definition pending_response :: "string \<Rightarrow> frame" where
  "pending_response orderId =
     InitialResponse orderId PENDING ''Order created and queued for processing''"

text \<open>
  The part of the handler that runs once the parameters are accepted: register the socket,
  send PENDING, then (asynchronously, here at once) create the order row and add the job;
  if either throws, an error frame is sent and the socket stays open.
\<close>

definition accept_order ::
  "request_env \<Rightarrow> string \<Rightarrow> string \<Rightarrow> number \<Rightarrow> string \<Rightarrow> sock_ref \<Rightarrow> server \<Rightarrow> server" where
  "accept_order env tIn tOut amt oType sock srv =
     (let orderId = uuid env;
          m1 = registerConnection orderId sock (manager srv);
          m2 = socket_send sock (pending_response orderId) m1
      in case prisma_create (fault_create env) (created_order orderId tIn tOut amt oType)
                (order_rows srv) of
           Inl e \<Rightarrow>
             srv\<lparr> manager := socket_send sock
                    (ErrorResponse ''Failed to create order'' (Some (error_message e))) m2 \<rparr>
         | Inr rows \<Rightarrow>
            (case addOrder (fault_enqueue env) (queue_retained_blocks env)
                    (queued_data orderId tIn tOut amt oType) (jobs srv) of
               (Inl e, q) \<Rightarrow>
                 srv\<lparr> order_rows := rows, jobs := q,
                      manager := socket_send sock
                        (ErrorResponse ''Failed to create order'' (Some (error_message e))) m2 \<rparr>
             | (Inr jid, q) \<Rightarrow> srv\<lparr> order_rows := rows, jobs := q, manager := m2 \<rparr>))"

text \<open>
  The handler of \<^verbatim>\<open>/api/orders/execute\<close>, called with the accepted socket. The last case
  cannot be reached: past the validation the three strings are there. The close handler
  the route installs last calls \<^verbatim>\<open>closeConnection\<close> once the socket has closed, which
  like the manager's own handler removes the entry; it is left out.
\<close>

definition execute_order :: "request_env \<Rightarrow> execute_query \<Rightarrow> sock_ref \<Rightarrow> server \<Rightarrow> server" where
  "execute_order env query sock srv =
     (if falsy_string (query_tokenIn query) \<or> falsy_string (query_tokenOut query)
         \<or> falsy_number (query_amount query) \<or> falsy_string (query_orderType query)
      then srv\<lparr> manager := socket_close sock
                  (socket_send sock (ErrorResponse missing_parameters None) (manager srv)) \<rparr>
      else
        (case (query_tokenIn query, query_tokenOut query, query_orderType query) of
           (Some tIn, Some tOut, Some oType) \<Rightarrow>
             accept_order env tIn tOut (query_amount query) oType sock srv
         | _ \<Rightarrow> srv))"

text \<open>A server with no orders, no jobs and one accepted socket, and requests on it.\<close>

definition example_server :: server where
  "example_server =
     \<lparr> order_rows = Map.empty, jobs = [],
       manager = new_WebSocketManager (\<lambda>r. fresh_socket OPEN) \<rparr>"

definition example_request :: request_env where
  "example_request =
     \<lparr> uuid = ''order-1'', fault_create = None, fault_enqueue = None,
       queue_retained_blocks = False \<rparr>"

definition empty_token_query :: execute_query where
  "empty_token_query =
     \<lparr> query_tokenIn = Some [], query_tokenOut = Some ''USDC'', query_amount = Num 100,
       query_orderType = Some ''MARKET'' \<rparr>"

definition example_query :: "number \<Rightarrow> execute_query" where
  "example_query n =
     \<lparr> query_tokenIn = Some ''SOL'', query_tokenOut = Some ''USDC'', query_amount = n,
       query_orderType = Some ''MARKET'' \<rparr>"


section \<open>JavaScript numbers: rounding\<close>

lemma rhe_err: "\<bar>of_int (round_half_even y) - y\<bar> \<le> 1 / 2"
  unfolding round_half_even_def Let_def by (auto simp: abs_if) linarith+

lemma ulp_pos: "0 < ulp x"
  by (simp add: ulp_def)

lemma rnd_err: "\<bar>rnd x - x\<bar> \<le> ulp x / 2"
proof -
  have "rnd x - x = (of_int (round_half_even (x / ulp x)) - x / ulp x) * ulp x"
    using ulp_pos [of x] by (simp add: rnd_def field_simps)
  then have "\<bar>rnd x - x\<bar> = \<bar>of_int (round_half_even (x / ulp x)) - x / ulp x\<bar> * ulp x"
    using ulp_pos [of x] by (simp add: abs_mult)
  also have "\<dots> \<le> (1 / 2) * ulp x"
    using rhe_err [of "x / ulp x"] ulp_pos [of x] by (intro mult_right_mono) simp_all
  finally show ?thesis by simp
qed

lemma exponent_normal:
  assumes "2 powr (- 1022) \<le> \<bar>x\<bar>"
  shows "2 powr (of_int (exponent x)) \<le> \<bar>x\<bar>"
proof -
  have pos: "0 < \<bar>x\<bar>" using assms by (smt (verit) powr_gt_zero)
  have "- 1022 \<le> log 2 \<bar>x\<bar>"
    using assms pos by (simp add: le_log_iff)
  then have "- 1022 \<le> \<lfloor>log 2 \<bar>x\<bar>\<rfloor>" by (simp add: le_floor_iff)
  then have e: "exponent x = \<lfloor>log 2 \<bar>x\<bar>\<rfloor>" by (simp add: exponent_def)
  have "of_int \<lfloor>log 2 \<bar>x\<bar>\<rfloor> \<le> log 2 \<bar>x\<bar>" by simp
  then have "2 powr (of_int \<lfloor>log 2 \<bar>x\<bar>\<rfloor>) \<le> 2 powr (log 2 \<bar>x\<bar>)"
    by (intro powr_mono) simp_all
  then have "2 powr (of_int \<lfloor>log 2 \<bar>x\<bar>\<rfloor>) \<le> \<bar>x\<bar>"
    using pos by simp
  with e show ?thesis by simp
qed

lemma ulp_normal:
  assumes "2 powr (- 1022) \<le> \<bar>x\<bar>"
  shows "ulp x / 2 \<le> 2 powr (- 53) * \<bar>x\<bar>"
proof -
  have "ulp x / 2 = 2 powr (- 53) * 2 powr (of_int (exponent x))"
    by (simp add: ulp_def powr_diff powr_minus field_simps)
  also have "\<dots> \<le> 2 powr (- 53) * \<bar>x\<bar>"
    using exponent_normal [OF assms] by (intro mult_left_mono) simp_all
  finally show ?thesis .
qed

lemma rnd_rel_err:
  assumes "2 powr (- 1022) \<le> \<bar>x\<bar>"
  shows "\<bar>rnd x - x\<bar> \<le> 2 powr (- 53) * \<bar>x\<bar>"
  using rnd_err [of x] ulp_normal [OF assms] by linarith

lemma exponent_upper:
  assumes "x \<noteq> 0"
  shows "\<bar>x\<bar> < 2 powr (of_int (exponent x) + 1)"
proof -
  have pos: "0 < \<bar>x\<bar>" using assms by simp
  have "log 2 \<bar>x\<bar> < of_int \<lfloor>log 2 \<bar>x\<bar>\<rfloor> + 1" by linarith
  also have "\<dots> \<le> of_int (exponent x) + 1" by (simp add: exponent_def)
  finally have "2 powr (log 2 \<bar>x\<bar>) < 2 powr (of_int (exponent x) + 1)"
    by (intro powr_less_mono) simp_all
  then show ?thesis using pos by simp
qed

lemma rhe_le: "y < of_int k + 1 / 2 \<Longrightarrow> round_half_even y \<le> k"
  unfolding round_half_even_def Let_def by (auto split: if_splits) linarith+

lemma rhe_ge: "of_int k - 1 / 2 < y \<Longrightarrow> k \<le> round_half_even y"
  unfolding round_half_even_def Let_def by (auto split: if_splits) linarith+

lemma rhe_ge_even: "of_int k - 1 / 2 \<le> y \<Longrightarrow> even k \<Longrightarrow> k \<le> round_half_even y"
proof -
  assume a: "of_int k - 1 / 2 \<le> y" and ev: "even k"
  show ?thesis
  proof (cases "of_int k - 1 / 2 < y")
    case True
    then show ?thesis by (rule rhe_ge)
  next
    case False
    with a have y: "y = of_int k - 1 / 2" by simp
    have fl: "\<lfloor>y\<rfloor> = k - 1" unfolding y by linarith
    have "y - of_int \<lfloor>y\<rfloor> = 1 / 2" unfolding fl unfolding y by simp
    then show ?thesis using ev fl
      by (simp add: round_half_even_def Let_def)
  qed
qed

lemma exponent_le:
  assumes "x \<noteq> 0" and "\<bar>x\<bar> < 2 powr (of_int k)" and "- 1022 < k"
  shows "exponent x < k"
proof -
  have pos: "0 < \<bar>x\<bar>" using assms(1) by simp
  have "log 2 \<bar>x\<bar> < of_int k"
    using assms(2) pos by (simp add: log_less_iff)
  then have "\<lfloor>log 2 \<bar>x\<bar>\<rfloor> < k" by linarith
  then show ?thesis using assms(3) by (simp add: exponent_def)
qed

lemma rnd_finite:
  assumes "\<bar>x\<bar> < 2 ^ 1024 - 2 ^ 970"
  shows "\<bar>rnd x\<bar> < 2 ^ 1024"
proof (cases "x = 0")
  case True
  then show ?thesis by (simp add: rnd_def round_half_even_def)
next
  case False
  have "\<bar>x\<bar> < 2 powr (of_int 1024)" using assms by simp
  then have e: "exponent x < 1024" using False by (intro exponent_le) simp_all
  show ?thesis
  proof (cases "exponent x = 1023")
    case True
    then have u: "ulp x = 2 ^ 971" by (simp add: ulp_def)
    have "\<bar>x / ulp x\<bar> < 2 ^ 53 - 1 / 2"
      using assms unfolding u by (simp add: field_simps)
    then have "x / ulp x < 2 ^ 53 - 1 / 2" and "- (2 ^ 53 - 1 / 2) < x / ulp x"
      by linarith+
    then have hi: "x / ulp x < of_int (2 ^ 53 - 1) + 1 / 2"
      and lo: "of_int (- (2 ^ 53 - 1)) - 1 / 2 < x / ulp x"
      by simp_all
    have "round_half_even (x / ulp x) \<le> 2 ^ 53 - 1" using hi by (rule rhe_le)
    moreover have "- (2 ^ 53 - 1) \<le> round_half_even (x / ulp x)" using lo by (rule rhe_ge)
    ultimately have "\<bar>round_half_even (x / ulp x)\<bar> \<le> 2 ^ 53 - 1" by simp
    then have "real_of_int \<bar>round_half_even (x / ulp x)\<bar> \<le> real_of_int (2 ^ 53 - 1)"
      by (simp only: of_int_le_iff)
    then have "\<bar>real_of_int (round_half_even (x / ulp x))\<bar> \<le> 2 ^ 53 - 1"
      by simp
    then have "\<bar>rnd x\<bar> \<le> (2 ^ 53 - 1) * 2 ^ 971"
      unfolding rnd_def u abs_mult by (intro mult_mono) simp_all
    also have "\<dots> < (2::real) ^ 1024" by simp
    finally show ?thesis .
  next
    case False
    with e have e': "exponent x \<le> 1022" by simp
    have "\<bar>rnd x\<bar> \<le> \<bar>x\<bar> + ulp x / 2" using rnd_err [of x] by linarith
    moreover have "\<bar>x\<bar> < 2 powr (of_int (exponent x) + 1)"
      using \<open>x \<noteq> 0\<close> by (rule exponent_upper)
    moreover have "(2::real) powr (of_int (exponent x) + 1) \<le> 2 powr 1023"
      using e' by (intro powr_mono) simp_all
    moreover have "ulp x \<le> 2 powr 970"
      unfolding ulp_def using e' by (intro powr_mono) simp_all
    ultimately have "\<bar>rnd x\<bar> < 2 powr 1023 + 2 powr 970 / 2" by linarith
    also have "\<dots> < (2::real) ^ 1024" by simp
    finally show ?thesis .
  qed
qed

lemma rnd_overflow:
  assumes "2 ^ 1024 - 2 ^ 970 \<le> x"
  shows "2 ^ 1024 \<le> rnd x"
proof -
  have big: "(2::real) ^ 1023 \<le> x" using assms by simp
  then have pos: "0 < x" by (smt (verit) zero_less_power)
  have norm: "2 powr (- 1022) \<le> \<bar>x\<bar>"
  proof -
    have "(2::real) powr (- 1022) \<le> 2 powr 1023" by (intro powr_mono) simp_all
    with big pos show ?thesis by simp
  qed
  have lo: "2 powr (of_int (exponent x)) \<le> x"
    using exponent_normal [OF norm] pos by simp
  have "x < 2 powr (of_int (exponent x) + 1)"
    using exponent_upper [of x] pos by simp
  moreover have "(2::real) powr 1023 = 2 ^ 1023" by simp
  ultimately have "(2::real) powr 1023 < 2 powr (of_int (exponent x) + 1)"
    using big by linarith
  then have "(1023::real) < of_int (exponent x) + 1"
    by (rule powr_less_cancel) simp
  then have e: "1023 \<le> exponent x" by linarith
  show ?thesis
  proof (cases "exponent x = 1023")
    case True
    then have u: "ulp x = 2 ^ 971" by (simp add: ulp_def)
    have "of_int (2 ^ 53) - 1 / 2 \<le> x / ulp x"
      using assms unfolding u by (simp add: field_simps)
    then have "2 ^ 53 \<le> round_half_even (x / ulp x)"
      by (rule rhe_ge_even) simp
    then have "real_of_int (2 ^ 53) \<le> real_of_int (round_half_even (x / ulp x))"
      by (simp only: of_int_le_iff)
    then have "2 ^ 53 * 2 ^ 971 \<le> rnd x"
      unfolding rnd_def u by (intro mult_right_mono) simp_all
    then show ?thesis by simp
  next
    case False
    with e have e': "1024 \<le> exponent x" by simp
    have u: "ulp x * 2 ^ 52 = 2 powr (of_int (exponent x))"
      by (simp add: ulp_def powr_diff)
    have "ulp x * 2 ^ 52 \<le> x" using lo u by simp
    then have "2 ^ 52 \<le> x / ulp x"
      using ulp_pos [of x] by (simp add: field_simps)
    then have "(2::real) ^ 52 - 1 / 2 < x / ulp x" by linarith
    then have "of_int (2 ^ 52) - 1 / 2 < x / ulp x"
      by (simp only: of_int_numeral of_int_power)
    then have "2 ^ 52 \<le> round_half_even (x / ulp x)" by (rule rhe_ge)
    then have "real_of_int (2 ^ 52) \<le> real_of_int (round_half_even (x / ulp x))"
      by (simp only: of_int_le_iff)
    then have "2 ^ 52 * ulp x \<le> rnd x"
      unfolding rnd_def using ulp_pos [of x] by (intro mult_right_mono) simp_all
    then have "2 powr (of_int (exponent x)) \<le> rnd x" using u by (simp add: mult.commute)
    moreover have "(2::real) powr 1024 \<le> 2 powr (of_int (exponent x))"
      using e' by (intro powr_mono) simp_all
    ultimately show ?thesis by simp
  qed
qed

lemma fl_overflow: "2 ^ 1024 - 2 ^ 970 \<le> x \<Longrightarrow> fl x = Infinity"
proof -
  assume a: "2 ^ 1024 - 2 ^ 970 \<le> x"
  then have "(2::real) ^ 1023 \<le> x" by simp
  then have pos: "0 < x" by (smt (verit) zero_less_power)
  have "2 ^ 1024 \<le> rnd x" using a by (rule rnd_overflow)
  then have "2 ^ 1024 \<le> \<bar>rnd x\<bar>" by linarith
  with pos show ?thesis by (simp add: fl_def)
qed

lemma fl_finite: "\<bar>x\<bar> < 2 ^ 1024 - 2 ^ 970 \<Longrightarrow> fl x = Num (rnd x)"
proof -
  assume "\<bar>x\<bar> < 2 ^ 1024 - 2 ^ 970"
  then have "\<bar>rnd x\<bar> < 2 ^ 1024" by (rule rnd_finite)
  moreover have "rnd 0 = 0" by (simp add: rnd_def round_half_even_def)
  ultimately show ?thesis by (simp add: fl_def)
qed

lemma fl_Num: "fl x = Num y \<Longrightarrow> y = rnd x"
  by (cases "x = 0") (auto simp: fl_def rnd_def round_half_even_def split: if_splits)

lemma rnd_zero: "rnd 0 = 0"
  by (simp add: rnd_def round_half_even_def)

lemma unit_roundoff_bounds: "0 < unit_roundoff" "unit_roundoff < 1 / 1000000000000000"
  by (simp_all add: unit_roundoff_def)

lemma rnd_small_err:
  assumes "\<bar>x\<bar> < 2"
  shows "\<bar>rnd x - x\<bar> \<le> unit_roundoff"
proof (cases "x = 0")
  case True
  then show ?thesis by (simp add: rnd_zero unit_roundoff_def)
next
  case False
  have "exponent x < 1" using False assms by (intro exponent_le) simp_all
  then have "of_int (exponent x) - 52 \<le> (- 52 :: real)" by simp
  then have "ulp x \<le> 2 powr (- 52)" unfolding ulp_def by (intro powr_mono) simp_all
  moreover have "(2::real) powr (- 52) = 1 / 2 ^ 52" by (simp add: powr_minus_divide)
  ultimately show ?thesis using rnd_err [of x] by (simp add: unit_roundoff_def)
qed

lemma fl_small:
  assumes "\<bar>x\<bar> < 2"
  shows "fl x = Num (rnd x)" and "\<bar>rnd x - x\<bar> \<le> unit_roundoff"
proof -
  have "\<bar>x\<bar> < 2 ^ 1024 - 2 ^ 970" using assms by simp
  then show "fl x = Num (rnd x)" by (rule fl_finite)
  show "\<bar>rnd x - x\<bar> \<le> unit_roundoff" using assms by (rule rnd_small_err)
qed

lemma fl_normal:
  assumes "1 / 2 ^ 1022 \<le> \<bar>x\<bar>" and "\<bar>x\<bar> < 2 ^ 1024 - 2 ^ 970"
  shows "fl x = Num (rnd x)" and "\<bar>rnd x - x\<bar> \<le> unit_roundoff * \<bar>x\<bar>"
proof -
  show "fl x = Num (rnd x)" using assms(2) by (rule fl_finite)
  have "(2::real) powr (- 1022) = 1 / 2 ^ 1022" by (simp add: powr_minus_divide)
  then have "2 powr (- 1022) \<le> \<bar>x\<bar>" using assms(1) by simp
  then have "\<bar>rnd x - x\<bar> \<le> 2 powr (- 53) * \<bar>x\<bar>" by (rule rnd_rel_err)
  moreover have "(2::real) powr (- 53) = 1 / 2 ^ 53" by (simp add: powr_minus_divide)
  ultimately show "\<bar>rnd x - x\<bar> \<le> unit_roundoff * \<bar>x\<bar>" by (simp add: unit_roundoff_def)
qed

lemma lit_normal:
  assumes "1 / 1024 \<le> x" and "x \<le> 2 ^ 1023"
  shows "lit x = Num (rnd x)" and "\<bar>rnd x - x\<bar> \<le> unit_roundoff * x"
proof -
  have lo: "1 / 2 ^ 1022 \<le> \<bar>x\<bar>" using assms(1) by simp
  have hi: "\<bar>x\<bar> < 2 ^ 1024 - 2 ^ 970" using assms by simp
  show "lit x = Num (rnd x)" unfolding lit_def using lo hi by (rule fl_normal)
  show "\<bar>rnd x - x\<bar> \<le> unit_roundoff * x" using fl_normal(2) [OF lo hi] assms(1) by simp
qed

lemma jgt_irrefl: "\<not> jgt n n"
  by (cases n) simp_all

lemma err3:
  fixes u :: real
  assumes u: "0 \<le> u" "u \<le> 1 / 8"
    and m: "\<bar>m - A\<bar> \<le> u * \<bar>A\<bar>"
    and s: "\<bar>s - B\<bar> \<le> u * \<bar>B\<bar>"
    and o: "\<bar>ou - m * s\<bar> \<le> u * \<bar>m * s\<bar>"
  shows "\<bar>ou - A * B\<bar> \<le> 4 * u * \<bar>A * B\<bar>"
proof -
  define X where "X = \<bar>A\<bar> * \<bar>B\<bar>"
  have X: "0 \<le> X" by (simp add: X_def)
  have m1: "\<bar>m\<bar> \<le> (1 + u) * \<bar>A\<bar>" using m by (simp add: algebra_simps)
  have s1: "\<bar>s\<bar> \<le> (1 + u) * \<bar>B\<bar>" using s by (simp add: algebra_simps)
  have ms: "\<bar>m * s\<bar> \<le> (1 + u) * (1 + u) * X"
  proof -
    have "\<bar>m\<bar> * \<bar>s\<bar> \<le> ((1 + u) * \<bar>A\<bar>) * ((1 + u) * \<bar>B\<bar>)"
      using m1 s1 u by (intro mult_mono) simp_all
    then show ?thesis by (simp add: abs_mult X_def algebra_simps)
  qed
  have t1: "\<bar>m - A\<bar> * \<bar>s\<bar> \<le> (u * \<bar>A\<bar>) * ((1 + u) * \<bar>B\<bar>)"
    using m s1 u by (intro mult_mono) simp_all
  have t2: "\<bar>A\<bar> * \<bar>s - B\<bar> \<le> \<bar>A\<bar> * (u * \<bar>B\<bar>)"
    using s by (intro mult_left_mono) simp_all
  have "m * s - A * B = (m - A) * s + A * (s - B)" by (simp add: algebra_simps)
  then have "\<bar>m * s - A * B\<bar> \<le> \<bar>m - A\<bar> * \<bar>s\<bar> + \<bar>A\<bar> * \<bar>s - B\<bar>"
    by (metis abs_mult abs_triangle_ineq)
  then have d: "\<bar>m * s - A * B\<bar> \<le> (u * (1 + u) + u) * X"
    using t1 t2 by (simp add: X_def algebra_simps)
  have o1: "\<bar>ou - m * s\<bar> \<le> u * ((1 + u) * (1 + u) * X)"
    using o ms u by (meson mult_left_mono order_trans)
  have "\<bar>ou - A * B\<bar> \<le> \<bar>ou - m * s\<bar> + \<bar>m * s - A * B\<bar>" by linarith
  then have "\<bar>ou - A * B\<bar> \<le> (u * ((1 + u) * (1 + u)) + u * (1 + u) + u) * X"
    using o1 d by (simp add: algebra_simps)
  moreover have "(u * ((1 + u) * (1 + u)) + u * (1 + u) + u) * X \<le> (4 * u) * X"
  proof (intro mult_right_mono X)
    have "(1 + u) * (1 + u) \<le> (9 / 8) * (9 / 8)" using u by (intro mult_mono) simp_all
    then have "u * ((1 + u) * (1 + u)) \<le> u * ((9 / 8) * (9 / 8))"
      using u by (intro mult_left_mono) simp_all
    moreover have "u * (1 + u) \<le> u * (9 / 8)" using u by (intro mult_left_mono) simp_all
    ultimately show "u * ((1 + u) * (1 + u)) + u * (1 + u) + u \<le> 4 * u" using u by simp
  qed
  ultimately show ?thesis by (simp add: X_def abs_mult)
qed

lemma price_value:
  assumes r: "0 \<le> r" "r \<le> 1"
    and b: "1 / 2 \<le> b" "b \<le> 1"
    and w: "1 / 100 \<le> w" "w \<le> 1 / 10"
  shows "jadd (lit b) (jmul (Num r) (lit w)) = Num (rnd (rnd b + rnd (r * rnd w)))"
    and "\<bar>rnd (rnd b + rnd (r * rnd w)) - (b + r * w)\<bar> \<le> 4 * unit_roundoff"
proof -
  note u = unit_roundoff_bounds
  have lb: "lit b = Num (rnd b)" using b by (intro lit_normal) simp_all
  have "\<bar>rnd b - b\<bar> \<le> unit_roundoff * b" using b by (intro lit_normal) simp_all
  moreover have "unit_roundoff * b \<le> unit_roundoff * 1"
    using b u by (intro mult_left_mono) simp_all
  ultimately have eb: "\<bar>rnd b - b\<bar> \<le> unit_roundoff" by simp
  have lw: "lit w = Num (rnd w)" using w by (intro lit_normal) simp_all
  have "\<bar>rnd w - w\<bar> \<le> unit_roundoff * w" using w by (intro lit_normal) simp_all
  moreover have "unit_roundoff * w \<le> unit_roundoff * 1"
    using w u by (intro mult_left_mono) simp_all
  ultimately have ew: "\<bar>rnd w - w\<bar> \<le> unit_roundoff" by simp
  have "\<bar>r * rnd w\<bar> = r * \<bar>rnd w\<bar>" using r by (simp add: abs_mult)
  also have "\<dots> \<le> 1 * \<bar>rnd w\<bar>" using r by (intro mult_right_mono) simp_all
  finally have rw: "\<bar>r * rnd w\<bar> \<le> \<bar>rnd w\<bar>" by simp
  then have small: "\<bar>r * rnd w\<bar> < 2" using ew w u by linarith
  have t: "fl (r * rnd w) = Num (rnd (r * rnd w))" using small by (rule fl_small)
  have et: "\<bar>rnd (r * rnd w) - r * rnd w\<bar> \<le> unit_roundoff" using small by (rule fl_small)
  have "\<bar>r * rnd w - r * w\<bar> = r * \<bar>rnd w - w\<bar>"
    using r by (simp add: abs_mult flip: right_diff_distrib)
  also have "\<dots> \<le> 1 * \<bar>rnd w - w\<bar>" using r by (intro mult_right_mono) simp_all
  finally have erw: "\<bar>r * rnd w - r * w\<bar> \<le> unit_roundoff" using ew by simp
  have sum: "\<bar>rnd b + rnd (r * rnd w)\<bar> < 2" using eb et rw ew b w u by linarith
  have s: "fl (rnd b + rnd (r * rnd w)) = Num (rnd (rnd b + rnd (r * rnd w)))"
    using sum by (rule fl_small)
  have es: "\<bar>rnd (rnd b + rnd (r * rnd w)) - (rnd b + rnd (r * rnd w))\<bar> \<le> unit_roundoff"
    using sum by (rule fl_small)
  show "jadd (lit b) (jmul (Num r) (lit w)) = Num (rnd (rnd b + rnd (r * rnd w)))"
    by (simp add: lb lw t s)
  show "\<bar>rnd (rnd b + rnd (r * rnd w)) - (b + r * w)\<bar> \<le> 4 * unit_roundoff"
    using eb et erw es by linarith
qed

lemma one_minus_fee:
  assumes "1 / 1000 \<le> f" and "f \<le> 1 / 100"
  shows "jsub (Num 1) (Num f) = Num (rnd (1 - f))"
    and "\<bar>rnd (1 - f) - (1 - f)\<bar> \<le> unit_roundoff * \<bar>1 - f\<bar>"
    and "9 / 10 \<le> rnd (1 - f)" and "rnd (1 - f) \<le> 1"
proof -
  note u = unit_roundoff_bounds
  have lo: "1 / 2 ^ 1022 \<le> \<bar>1 - f\<bar>" using assms by simp
  have hi: "\<bar>1 - f\<bar> < 2 ^ 1024 - 2 ^ 970" using assms by simp
  have "fl (1 - f) = Num (rnd (1 - f))" using lo hi by (rule fl_normal)
  then show "jsub (Num 1) (Num f) = Num (rnd (1 - f))" by (simp add: jsub_def)
  show e: "\<bar>rnd (1 - f) - (1 - f)\<bar> \<le> unit_roundoff * \<bar>1 - f\<bar>" using lo hi by (rule fl_normal)
  have "unit_roundoff * \<bar>1 - f\<bar> \<le> unit_roundoff * (999 / 1000)"
    using assms u by (intro mult_left_mono) simp_all
  then have e': "\<bar>rnd (1 - f) - (1 - f)\<bar> \<le> unit_roundoff * (999 / 1000)" using e by linarith
  show "9 / 10 \<le> rnd (1 - f)" using e' assms u by linarith
  show "rnd (1 - f) \<le> 1" using e' assms u by linarith
qed

lemma quote_output:
  assumes a: "1 / 2 ^ 1021 \<le> \<bar>a\<bar>" "\<bar>a\<bar> \<le> 2 ^ 1023"
    and p: "9 / 10 \<le> p" "p \<le> 11 / 10"
    and f: "1 / 1000 \<le> f" "f \<le> 1 / 100"
  shows "\<exists>out. jmul (jmul (Num a) (Num p)) (jsub (Num 1) (Num f)) = Num out
            \<and> \<bar>out - a * p * (1 - f)\<bar> \<le> 4 * unit_roundoff * \<bar>a * p * (1 - f)\<bar>"
proof -
  note u = unit_roundoff_bounds
  define L :: real where "L = 1 / 2 ^ 1022"
  define H :: real where "H = 2 ^ 1023"
  have L: "0 < L" "1 / 2 ^ 1021 = 2 * L" by (simp_all add: L_def)
  have H: "2 ^ 1024 - 2 ^ 970 = 2 * H - H / 2 ^ 53" "0 < H" by (simp_all add: H_def)
  have a': "2 * L \<le> \<bar>a\<bar>" "\<bar>a\<bar> \<le> H" using a L by (simp_all add: H_def)
  define A where "A = a * p"
  have absA: "\<bar>A\<bar> = \<bar>a\<bar> * p" using p by (simp add: A_def abs_mult)
  have "(2 * L) * (9 / 10) \<le> \<bar>a\<bar> * p" using a' p L by (intro mult_mono) simp_all
  then have Alo: "(9 / 5) * L \<le> \<bar>A\<bar>" using absA by simp
  have "\<bar>a\<bar> * p \<le> H * (11 / 10)" using a' p H by (intro mult_mono) simp_all
  then have Ahi: "\<bar>A\<bar> \<le> (11 / 10) * H" using absA by simp
  have Alo': "1 / 2 ^ 1022 \<le> \<bar>A\<bar>" using Alo L by (simp add: L_def)
  have "(11 / 10) * H < 2 * H - H / 2 ^ 53" using H(2) by (simp add: field_simps)
  then have Ahi': "\<bar>A\<bar> < 2 ^ 1024 - 2 ^ 970" using Ahi H(1) by linarith
  define m where "m = rnd A"
  have fm: "fl A = Num m" unfolding m_def using Alo' Ahi' by (rule fl_normal)
  have em: "\<bar>m - A\<bar> \<le> unit_roundoff * \<bar>A\<bar>" unfolding m_def using Alo' Ahi' by (rule fl_normal)
  define B where "B = 1 - f"
  define s where "s = rnd B"
  have fs: "jsub (Num 1) (Num f) = Num s" unfolding s_def B_def using f by (rule one_minus_fee)
  have es: "\<bar>s - B\<bar> \<le> unit_roundoff * \<bar>B\<bar>" unfolding s_def B_def using f by (rule one_minus_fee)
  have s1: "9 / 10 \<le> s" unfolding s_def B_def using f by (rule one_minus_fee)
  have s2: "s \<le> 1" unfolding s_def B_def using f by (rule one_minus_fee)
  have "unit_roundoff * \<bar>A\<bar> \<le> (1 / 10) * \<bar>A\<bar>" using u by (intro mult_right_mono) simp_all
  then have mlo: "(9 / 10) * \<bar>A\<bar> \<le> \<bar>m\<bar>" and mhi: "\<bar>m\<bar> \<le> (1 + unit_roundoff) * \<bar>A\<bar>"
    using em by (simp_all add: algebra_simps)
  have absms: "\<bar>m * s\<bar> = \<bar>m\<bar> * s" using s1 by (simp add: abs_mult)
  have "((9 / 10) * \<bar>A\<bar>) * (9 / 10) \<le> \<bar>m\<bar> * s" using mlo s1 by (intro mult_mono) simp_all
  then have "L \<le> \<bar>m * s\<bar>" using absms Alo L by linarith
  then have mslo: "1 / 2 ^ 1022 \<le> \<bar>m * s\<bar>" by (simp add: L_def)
  have "\<bar>m\<bar> * s \<le> \<bar>m\<bar> * 1" using s2 by (intro mult_left_mono) simp_all
  then have "\<bar>m * s\<bar> \<le> (1 + unit_roundoff) * \<bar>A\<bar>" using absms mhi by linarith
  moreover have "(1 + unit_roundoff) * \<bar>A\<bar> \<le> (1 + 1 / 10) * ((11 / 10) * H)"
    using u Ahi by (intro mult_mono) simp_all
  moreover have "(1 + 1 / 10) * ((11 / 10) * H) < 2 * H - H / 2 ^ 53"
    using H(2) by (simp add: field_simps)
  ultimately have mshi: "\<bar>m * s\<bar> < 2 ^ 1024 - 2 ^ 970" using H(1) by linarith
  define ou where "ou = rnd (m * s)"
  have fo: "fl (m * s) = Num ou" unfolding ou_def using mslo mshi by (rule fl_normal)
  have eo: "\<bar>ou - m * s\<bar> \<le> unit_roundoff * \<bar>m * s\<bar>"
    unfolding ou_def using mslo mshi by (rule fl_normal)
  have "\<bar>ou - A * B\<bar> \<le> 4 * unit_roundoff * \<bar>A * B\<bar>"
    using _ _ em es eo by (rule err3) (use u in simp_all)
  moreover have "jmul (jmul (Num a) (Num p)) (jsub (Num 1) (Num f)) = Num ou"
    by (simp add: fs fm fo flip: A_def)
  ultimately show ?thesis by (auto simp: A_def B_def)
qed

lemma lit_less:
  assumes "1 / 1024 \<le> x" and "x * 1000001 \<le> y * 1000000" and "y \<le> 2 ^ 1023"
  shows "jgt (lit y) (lit x)" and "\<not> jgt (lit x) (lit y)"
proof -
  note u = unit_roundoff_bounds
  have xy: "x \<le> y" "1 / 1024 \<le> y" "x \<le> 2 ^ 1023" using assms by linarith+
  have lx: "lit x = Num (rnd x)" using assms(1) xy(3) by (rule lit_normal)
  have ex: "\<bar>rnd x - x\<bar> \<le> unit_roundoff * x" using assms(1) xy(3) by (rule lit_normal)
  have ly: "lit y = Num (rnd y)" using xy(2) assms(3) by (rule lit_normal)
  have ey: "\<bar>rnd y - y\<bar> \<le> unit_roundoff * y" using xy(2) assms(3) by (rule lit_normal)
  have "unit_roundoff * x \<le> (1 / 1000000000000000) * x"
    using u assms(1) by (intro mult_right_mono) simp_all
  moreover have "unit_roundoff * y \<le> (1 / 1000000000000000) * y"
    using u xy(2) by (intro mult_right_mono) simp_all
  ultimately have "rnd x < rnd y" using ex ey assms(1,2) by linarith
  then show "jgt (lit y) (lit x)" and "\<not> jgt (lit x) (lit y)" by (simp_all add: lx ly)
qed

lemma exponent_eqI:
  assumes "2 powr (of_int k) \<le> \<bar>x\<bar>" and "\<bar>x\<bar> < 2 powr (of_int k + 1)" and "- 1022 \<le> k"
  shows "exponent x = k"
proof -
  have pos: "0 < \<bar>x\<bar>" using assms(1) by (smt (verit) powr_gt_zero)
  have "of_int k \<le> log 2 \<bar>x\<bar>" using assms(1) pos by (simp add: le_log_iff)
  moreover have "log 2 \<bar>x\<bar> < of_int k + 1" using assms(2) pos by (simp add: log_less_iff)
  ultimately have "\<lfloor>log 2 \<bar>x\<bar>\<rfloor> = k" by linarith
  then show ?thesis using assms(3) by (simp add: exponent_def)
qed

text \<open>
  The model at work: the literals of the two fees denote the doubles \<^verbatim>\<open>0x3F689374BC6A7EFA\<close>
  and \<^verbatim>\<open>0x3F60624DD2F1A9FC\<close>.
\<close>

lemma fee_doubles:
  "lit 0.003 = Num (6917529027641082 / 2 ^ 61)"
  "lit 0.002 = Num (4611686018427388 / 2 ^ 61)"
proof -
  have e3: "exponent 0.003 = - 9" by (rule exponent_eqI) (simp_all add: powr_minus_divide)
  have e2: "exponent 0.002 = - 9" by (rule exponent_eqI) (simp_all add: powr_minus_divide)
  have u3: "ulp 0.003 = 1 / 2 ^ 61" unfolding ulp_def e3 by (simp add: powr_minus_divide)
  have u2: "ulp 0.002 = 1 / 2 ^ 61" unfolding ulp_def e2 by (simp add: powr_minus_divide)
  have q3: "0.003 / (1 / 2 ^ 61) = (6917529027641081856 / 1000 :: real)" by simp
  have q2: "0.002 / (1 / 2 ^ 61) = (4611686018427387904 / 1000 :: real)" by simp
  have f3: "\<lfloor>6917529027641081856 / 1000 :: real\<rfloor> = 6917529027641081" by linarith
  have f2: "\<lfloor>4611686018427387904 / 1000 :: real\<rfloor> = 4611686018427387" by linarith
  have h3: "round_half_even (6917529027641081856 / 1000) = 6917529027641082"
    unfolding round_half_even_def Let_def f3 by simp
  have h2: "round_half_even (4611686018427387904 / 1000) = 4611686018427388"
    unfolding round_half_even_def Let_def f2 by simp
  have "rnd 0.003 = of_int 6917529027641082 * (1 / 2 ^ 61)"
    by (simp only: rnd_def u3 q3 h3)
  then have r3: "rnd 0.003 = 6917529027641082 / 2 ^ 61" by simp
  have "rnd 0.002 = of_int 4611686018427388 * (1 / 2 ^ 61)"
    by (simp only: rnd_def u2 q2 h2)
  then have r2: "rnd 0.002 = 4611686018427388 / 2 ^ 61" by simp
  have "lit 0.003 = Num (rnd 0.003)" by (rule lit_normal) simp_all
  then show "lit 0.003 = Num (6917529027641082 / 2 ^ 61)" unfolding r3 .
  have "lit 0.002 = Num (rnd 0.002)" by (rule lit_normal) simp_all
  then show "lit 0.002 = Num (4611686018427388 / 2 ^ 61)" unfolding r2 .
qed


section \<open>Route selection and quotes: theorems\<close>

lemma quote_fields:
  assumes a: "1 / 2 ^ 1021 \<le> \<bar>a\<bar>" "\<bar>a\<bar> \<le> 2 ^ 1023"
    and r: "0 \<le> r" "r \<le> 1"
    and b: "19 / 20 \<le> b" "b \<le> 1"
    and w: "1 / 100 \<le> w" "w \<le> 1 / 20"
    and f: "1 / 500 \<le> f" "f \<le> 1 / 200"
  shows "\<exists>p f' out.
           jadd (lit b) (jmul (Num r) (lit w)) = Num p \<and> lit f = Num f'
           \<and> jmul (jmul (Num a) (Num p)) (jsub (Num 1) (Num f')) = Num out
           \<and> \<bar>out - a * p * (1 - f')\<bar> \<le> 4 * unit_roundoff * \<bar>a * p * (1 - f')\<bar>"
proof -
  note u = unit_roundoff_bounds
  define p where "p = rnd (rnd b + rnd (r * rnd w))"
  have pv: "jadd (lit b) (jmul (Num r) (lit w)) = Num p"
    unfolding p_def using r b w by (intro price_value) simp_all
  have pe: "\<bar>p - (b + r * w)\<bar> \<le> 4 * unit_roundoff"
    unfolding p_def using r b w by (intro price_value) simp_all
  have "0 * w \<le> r * w" using r w by (intro mult_right_mono) simp_all
  moreover have "r * w \<le> 1 * w" using r w by (intro mult_right_mono) simp_all
  ultimately have p: "9 / 10 \<le> p" "p \<le> 11 / 10" using pe b w u by linarith+
  define f' where "f' = rnd f"
  have fv: "lit f = Num f'" unfolding f'_def using f by (intro lit_normal) simp_all
  have fe: "\<bar>f' - f\<bar> \<le> unit_roundoff * f" unfolding f'_def using f by (intro lit_normal) simp_all
  have "unit_roundoff * f \<le> (1 / 1000000000000000) * f"
    using u f by (intro mult_right_mono) simp_all
  then have f': "1 / 1000 \<le> f'" "f' \<le> 1 / 100" using fe f by linarith+
  obtain out where "jmul (jmul (Num a) (Num p)) (jsub (Num 1) (Num f')) = Num out"
      and "\<bar>out - a * p * (1 - f')\<bar> \<le> 4 * unit_roundoff * \<bar>a * p * (1 - f')\<bar>"
    using quote_output [OF a p f'] by blast
  with pv fv show ?thesis by blast
qed

lemma quote_fields_within_tolerance:
  assumes "price q = Num p" and "fee q = Num f'" and "estimatedOutput q = Num out"
    and "\<bar>out - a * p * (1 - f')\<bar> \<le> 4 * unit_roundoff * \<bar>a * p * (1 - f')\<bar>"
  shows "within_tolerance (Num a) q"
  using assms by (simp add: within_tolerance_def exact_output_def)

text \<open>
  C3. For any two quotes, \<^verbatim>\<open>selectBestRoute\<close> returns the first exactly when its estimated
  output is strictly greater than the second's, and the second operand otherwise, also on an
  exact tie; the three cases of the specification are instances: outputs (99.7, 100.098)
  give the second quote, (101.694, 99.8) the first, and equal outputs the second. The
  comparison is JavaScript's \<^verbatim>\<open>>\<close>, which on finite outputs is the order of the reals.
\<close>

theorem selectBestRoute_strictly_greater:
  "selectBestRoute a b = (if jgt (estimatedOutput a) (estimatedOutput b) then a else b)
   \<and> (estimatedOutput a = Num x \<and> estimatedOutput b = Num y
        \<longrightarrow> selectBestRoute a b = (if y < x then a else b))
   \<and> (estimatedOutput a = estimatedOutput b \<longrightarrow> selectBestRoute a b = b)
   \<and> (estimatedOutput a = lit 99.7 \<and> estimatedOutput b = lit 100.098
        \<longrightarrow> selectBestRoute a b = b)
   \<and> (estimatedOutput a = lit 101.694 \<and> estimatedOutput b = lit 99.8
        \<longrightarrow> selectBestRoute a b = a)"
proof -
  have "\<not> jgt (lit 99.7) (lit 100.098)" by (rule lit_less) simp_all
  moreover have "jgt (lit 101.694) (lit 99.8)" by (rule lit_less) simp_all
  ultimately show ?thesis by (simp add: selectBestRoute_def jgt_irrefl)
qed

theorem selectBestRoute_strictly_greater_witness:
  "selectBestRoute (test_quote ''Raydium'' 1.0 0.003 99.7 0.005)
                   (test_quote ''Meteora'' 1.01 0.002 100.098 0.004)
     = test_quote ''Meteora'' 1.01 0.002 100.098 0.004
   \<and> selectBestRoute (test_quote ''Raydium'' 1.02 0.003 101.694 0.005)
                     (test_quote ''Meteora'' 1.0 0.002 99.8 0.004)
     = test_quote ''Raydium'' 1.02 0.003 101.694 0.005
   \<and> selectBestRoute (test_quote ''Raydium'' 1.0 0.003 99.7 0.005)
                     (test_quote ''Meteora'' 0.999 0.002 99.7 0.004)
     = test_quote ''Meteora'' 0.999 0.002 99.7 0.004"
proof -
  have t: "estimatedOutput (test_quote d p f out i) = lit out" for d p f out i
    by (simp add: test_quote_def)
  show ?thesis
    using selectBestRoute_strictly_greater
            [where a = "test_quote ''Raydium'' 1.0 0.003 99.7 0.005"
               and b = "test_quote ''Meteora'' 1.01 0.002 100.098 0.004"]
          selectBestRoute_strictly_greater
            [where a = "test_quote ''Raydium'' 1.02 0.003 101.694 0.005"
               and b = "test_quote ''Meteora'' 1.0 0.002 99.8 0.004"]
          selectBestRoute_strictly_greater
            [where a = "test_quote ''Raydium'' 1.0 0.003 99.7 0.005"
               and b = "test_quote ''Meteora'' 0.999 0.002 99.7 0.004"]
    unfolding t by blast
qed

text \<open>
  C4, as stated: the estimated output of a quote is the product
  \<open>amount \<times> price \<times> (1 - fee)\<close> within floating-point tolerance. It fails where the first
  multiplication overflows: for the amount \<^verbatim>\<open>parseFloat("1.79e308")\<close>, which the intake
  route accepts, and the draw 0.625 the price of Raydium is close to 1.005, the product
  \<open>amount \<times> price\<close> lies beyond the largest double and becomes \<^verbatim>\<open>Infinity\<close>, and so does
  the estimated output, although amount, price and fee are finite and the exact product of
  the three lies below the largest double.
\<close>

theorem quote_overflow_counterexample:
  "estimatedOutput overflow_quote = Infinity
   \<and> \<not> within_tolerance overflow_amount overflow_quote
   \<and> \<not> falsy_number overflow_amount
   \<and> is_finite overflow_amount
   \<and> is_finite (price overflow_quote)
   \<and> is_finite (fee overflow_quote)
   \<and> 0 < exact_output overflow_amount overflow_quote
   \<and> exact_output overflow_amount overflow_quote < max_double"
proof -
  note u = unit_roundoff_bounds
  define a0 :: real where "a0 = 179 * 10 ^ 306"
  define a where "a = rnd a0"
  have a0: "0 < a0" by (simp add: a0_def)
  have lo: "1 / 2 ^ 1022 \<le> \<bar>a0\<bar>" by (simp add: a0_def)
  have hi: "\<bar>a0\<bar> < 2 ^ 1024 - 2 ^ 970" by (simp add: a0_def)
  have av: "overflow_amount = Num a"
    unfolding overflow_amount_def lit_def a_def a0_def [symmetric] using lo hi by (rule fl_normal)
  have "\<bar>a - a0\<bar> \<le> unit_roundoff * \<bar>a0\<bar>" unfolding a_def using lo hi by (rule fl_normal)
  moreover have "unit_roundoff * \<bar>a0\<bar> \<le> (1 / 1000000000000000) * \<bar>a0\<bar>"
    using u by (intro mult_right_mono) simp_all
  ultimately have a: "(999999999999999 / 1000000000000000) * a0 \<le> a"
      "a \<le> (1000000000000001 / 1000000000000000) * a0"
    using a0 by linarith+
  define p where "p = rnd (rnd 0.98 + rnd ((5 / 8) * rnd 0.04))"
  have pv: "jadd (lit 0.98) (jmul (Num (5 / 8)) (lit 0.04)) = Num p"
    unfolding p_def by (intro price_value) simp_all
  have "\<bar>p - (0.98 + (5 / 8) * 0.04)\<bar> \<le> 4 * unit_roundoff"
    unfolding p_def by (intro price_value) simp_all
  then have "\<bar>p - 1005 / 1000\<bar> \<le> 4 * unit_roundoff" by simp
  then have p: "10049 / 10000 \<le> p" "p \<le> 10051 / 10000" using u by linarith+
  define f where "f = rnd 0.003"
  have fv: "lit 0.003 = Num f" unfolding f_def by (intro lit_normal) simp_all
  have "\<bar>f - 0.003\<bar> \<le> unit_roundoff * 0.003" unfolding f_def by (intro lit_normal) simp_all
  then have "\<bar>f - 3 / 1000\<bar> \<le> unit_roundoff * (3 / 1000)" by simp
  then have f: "29 / 10000 \<le> f" "f \<le> 31 / 10000" using u by linarith+
  have f': "1 / 1000 \<le> f" "f \<le> 1 / 100" using f by simp_all
  define s where "s = rnd (1 - f)"
  have sv: "jsub (Num 1) (Num f) = Num s" unfolding s_def using f' by (rule one_minus_fee)
  have s: "9 / 10 \<le> s" unfolding s_def using f' by (rule one_minus_fee)
  have "((999999999999999 / 1000000000000000) * a0) * (10049 / 10000) \<le> a * p"
    using a p a0 by (intro mult_mono) simp_all
  moreover have "2 ^ 1024 - 2 ^ 970
      \<le> ((999999999999999 / 1000000000000000) * a0) * (10049 / 10000)"
    by (simp add: a0_def)
  ultimately have "2 ^ 1024 - 2 ^ 970 \<le> a * p" by linarith
  then have ov: "fl (a * p) = Infinity" by (rule fl_overflow)
  have out: "estimatedOutput overflow_quote = Infinity"
    unfolding overflow_quote_def getRaydiumQuote_def Let_def av pv fv
    using s by (simp add: sv ov)
  have fields: "price overflow_quote = Num p" "fee overflow_quote = Num f"
    unfolding overflow_quote_def getRaydiumQuote_def Let_def av pv fv by simp_all
  have ex: "exact_output overflow_amount overflow_quote = a * p * (1 - f)"
    by (simp add: exact_output_def av fields)
  have ap: "0 < a * p" using a p a0 by (intro mult_pos_pos) linarith+
  have ap_hi: "a * p \<le> ((1000000000000001 / 1000000000000000) * a0) * (10051 / 10000)"
    using a p a0 by (intro mult_mono) simp_all
  have "(a * p) * (1 - f)
      \<le> (((1000000000000001 / 1000000000000000) * a0) * (10051 / 10000)) * (9971 / 10000)"
  proof (rule mult_mono)
    show "a * p \<le> ((1000000000000001 / 1000000000000000) * a0) * (10051 / 10000)"
      by (rule ap_hi)
    show "1 - f \<le> 9971 / 10000" using f by simp
    show "0 \<le> ((1000000000000001 / 1000000000000000) * a0) * (10051 / 10000)"
      using a0 by simp
    show "0 \<le> 1 - f" using f by simp
  qed
  moreover have "(((1000000000000001 / 1000000000000000) * a0) * (10051 / 10000))
      * (9971 / 10000) < max_double"
    by (simp add: a0_def max_double_def)
  ultimately have below: "a * p * (1 - f) < max_double" by linarith
  have pos: "0 < a * p * (1 - f)" by (rule mult_pos_pos) (use ap f in simp_all)
  have "a \<noteq> 0" using a a0 by linarith
  then have nf: "\<not> falsy_number overflow_amount" by (simp add: av falsy_number_def)
  have nt: "\<not> within_tolerance overflow_amount overflow_quote"
    using out by (simp add: within_tolerance_def)
  have fin: "is_finite overflow_amount" "is_finite (price overflow_quote)"
      "is_finite (fee overflow_quote)"
    by (simp_all add: av fields)
  have e1: "0 < exact_output overflow_amount overflow_quote" unfolding ex by (rule pos)
  have e2: "exact_output overflow_amount overflow_quote < max_double"
    unfolding ex by (rule below)
  show ?thesis using out nt nf fin e1 e2 by blast
qed

text \<open>
  C4, amended. For an amount whose magnitude lies between \<open>2\<^sup>-\<^sup>1\<^sup>0\<^sup>2\<^sup>1\<close> and \<open>2\<^sup>1\<^sup>0\<^sup>2\<^sup>3\<close> and a
  price draw from 0 up to 1, each quote source returns a quote with finite price, fee and
  estimated output whose estimated output differs from the exact product
  \<open>amount \<times> price \<times> (1 - fee)\<close> by at most four unit roundoffs (\<open>2\<^sup>-\<^sup>5\<^sup>1\<close>) relative to it;
  the fee is the double nearest to the venue's constant, 0.003 for Raydium and 0.002 for
  Meteora, within one unit roundoff of it.
\<close>

theorem quote_estimatedOutput_within_tolerance:
  assumes "1 / 2 ^ 1021 \<le> \<bar>a\<bar>" and "\<bar>a\<bar> \<le> 2 ^ 1023" and "0 \<le> r1" and "r1 < 1"
  shows "within_tolerance (Num a) (getRaydiumQuote tIn tOut (Num a) r1 r2)
       \<and> fee (getRaydiumQuote tIn tOut (Num a) r1 r2) = lit 0.003
       \<and> dex (getRaydiumQuote tIn tOut (Num a) r1 r2) = ''Raydium''
       \<and> within_tolerance (Num a) (getMeteorQuote tIn tOut (Num a) r1 r2)
       \<and> fee (getMeteorQuote tIn tOut (Num a) r1 r2) = lit 0.002
       \<and> dex (getMeteorQuote tIn tOut (Num a) r1 r2) = ''Meteora''
       \<and> \<bar>value_of (lit 0.003) - 0.003\<bar> \<le> unit_roundoff * 0.003
       \<and> \<bar>value_of (lit 0.002) - 0.002\<bar> \<le> unit_roundoff * 0.002"
proof -
  have r: "0 \<le> r1" "r1 \<le> 1" using assms by simp_all
  have "\<exists>p f' out.
           jadd (lit 0.98) (jmul (Num r1) (lit 0.04)) = Num p \<and> lit 0.003 = Num f'
           \<and> jmul (jmul (Num a) (Num p)) (jsub (Num 1) (Num f')) = Num out
           \<and> \<bar>out - a * p * (1 - f')\<bar> \<le> 4 * unit_roundoff * \<bar>a * p * (1 - f')\<bar>"
    using assms(1,2) r by (rule quote_fields) simp_all
  then have ray: "within_tolerance (Num a) (getRaydiumQuote tIn tOut (Num a) r1 r2)"
    by (auto simp: getRaydiumQuote_def Let_def intro!: quote_fields_within_tolerance)
  have "\<exists>p f' out.
           jadd (lit 0.97) (jmul (Num r1) (lit 0.05)) = Num p \<and> lit 0.002 = Num f'
           \<and> jmul (jmul (Num a) (Num p)) (jsub (Num 1) (Num f')) = Num out
           \<and> \<bar>out - a * p * (1 - f')\<bar> \<le> 4 * unit_roundoff * \<bar>a * p * (1 - f')\<bar>"
    using assms(1,2) r by (rule quote_fields) simp_all
  then have met: "within_tolerance (Num a) (getMeteorQuote tIn tOut (Num a) r1 r2)"
    by (auto simp: getMeteorQuote_def Let_def intro!: quote_fields_within_tolerance)
  have l3: "lit 0.003 = Num (rnd 0.003)" by (intro lit_normal) simp_all
  have e3: "\<bar>rnd 0.003 - 0.003\<bar> \<le> unit_roundoff * 0.003" by (intro lit_normal) simp_all
  have l2: "lit 0.002 = Num (rnd 0.002)" by (intro lit_normal) simp_all
  have e2: "\<bar>rnd 0.002 - 0.002\<bar> \<le> unit_roundoff * 0.002" by (intro lit_normal) simp_all
  have "fee (getRaydiumQuote tIn tOut (Num a) r1 r2) = lit 0.003"
      "dex (getRaydiumQuote tIn tOut (Num a) r1 r2) = ''Raydium''"
      "fee (getMeteorQuote tIn tOut (Num a) r1 r2) = lit 0.002"
      "dex (getMeteorQuote tIn tOut (Num a) r1 r2) = ''Meteora''"
    by (simp_all add: getRaydiumQuote_def getMeteorQuote_def Let_def)
  moreover have "\<bar>value_of (lit 0.003) - 0.003\<bar> \<le> unit_roundoff * 0.003"
    unfolding l3 using e3 by simp
  moreover have "\<bar>value_of (lit 0.002) - 0.002\<bar> \<le> unit_roundoff * 0.002"
    unfolding l2 using e2 by simp
  ultimately show ?thesis using ray met by blast
qed

theorem quote_estimatedOutput_within_tolerance_witness:
  "within_tolerance (Num 100) (getRaydiumQuote ''SOL'' ''USDC'' (Num 100) (1 / 2) (1 / 2))
   \<and> fee (getRaydiumQuote ''SOL'' ''USDC'' (Num 100) (1 / 2) (1 / 2)) = lit 0.003
   \<and> within_tolerance (Num 100) (getMeteorQuote ''SOL'' ''USDC'' (Num 100) (1 / 2) (1 / 2))
   \<and> fee (getMeteorQuote ''SOL'' ''USDC'' (Num 100) (1 / 2) (1 / 2)) = lit 0.002"
  using quote_estimatedOutput_within_tolerance
          [where a = 100 and ?r1.0 = "1 / 2" and ?r2.0 = "1 / 2"
             and tIn = "''SOL''" and tOut = "''USDC''"]
  by simp


section \<open>The status publisher: theorems\<close>

lemma filter_key_distinct:
  "distinct (map fst al) \<Longrightarrow> length (filter (\<lambda>kv. fst kv = k) al) \<le> 1"
proof (induction al)
  case Nil
  then show ?case by simp
next
  case (Cons p al)
  show ?case
  proof (cases "fst p = k")
    case True
    from Cons.prems have "fst p \<notin> fst ` set al" by simp
    then have "\<forall>kv \<in> set al. fst kv \<noteq> k" using True by blast
    then have "filter (\<lambda>kv. fst kv = k) al = []" by (simp add: filter_empty_conv)
    then show ?thesis by simp
  next
    case False
    with Cons show ?thesis by simp
  qed
qed

lemma filter_key_lookup:
  "distinct (map fst al) \<Longrightarrow> map_of al k = Some v
     \<Longrightarrow> map snd (filter (\<lambda>kv. fst kv = k) al) = [v]"
proof (induction al)
  case Nil
  then show ?case by simp
next
  case (Cons p al)
  show ?case
  proof (cases "fst p = k")
    case True
    from Cons.prems have "fst p \<notin> fst ` set al" by simp
    then have "\<forall>kv \<in> set al. fst kv \<noteq> k" using True by blast
    then have "filter (\<lambda>kv. fst kv = k) al = []" by (simp add: filter_empty_conv)
    moreover from True Cons.prems have "snd p = v" by (cases p) simp
    ultimately show ?thesis using True by simp
  next
    case False
    with Cons show ?thesis by (cases p) auto
  qed
qed

lemma channels_of_le1: "registry_ok m \<Longrightarrow> length (channels_of m k) \<le> 1"
  using filter_key_distinct [of "connections m" k]
  by (simp add: registry_ok_def channels_of_def)

lemma registry_ok_new: "registry_ok (new_WebSocketManager heap)"
  by (simp add: registry_ok_def new_WebSocketManager_def)

lemma registry_ok_closeConnection: "registry_ok m \<Longrightarrow> registry_ok (closeConnection k m)"
  by (auto simp: registry_ok_def closeConnection_def socket_close_def Let_def
        AList.distinct_delete split: option.splits)

lemma registry_ok_registerConnection:
  "registry_ok m \<Longrightarrow> registry_ok (registerConnection k s m)"
  using registry_ok_closeConnection [of m k]
  by (auto simp: registry_ok_def registerConnection_def Let_def AList.distinct_update)

lemma registry_ok_sendStatusUpdate:
  "registry_ok m \<Longrightarrow> sendStatusUpdate out k st d m = Inr m' \<Longrightarrow> registry_ok m'"
  by (auto simp: registry_ok_def sendStatusUpdate_def sendStatusUpdate_try_def
        AList.distinct_delete
      split: option.splits if_splits send_outcome.splits sum.splits)

lemma sendStatusUpdate_returns: "\<exists>m'. sendStatusUpdate out k st d m = Inr m'"
  by (auto simp: sendStatusUpdate_def split: sum.splits)

lemma fold_delete_distinct:
  "distinct (map fst al) \<Longrightarrow> distinct (map fst (fold AList.delete ks al))"
  by (induction ks arbitrary: al) (auto simp: AList.distinct_delete)

lemma registry_ok_socket_event: "registry_ok m \<Longrightarrow> registry_ok (socket_event s m)"
  by (simp add: registry_ok_def socket_event_def fold_delete_distinct)

lemma registerConnection_lookup:
  "map_of (connections (registerConnection k s m)) k = Some s"
  by (simp add: registerConnection_def Let_def AList.update_conv')

lemma registerConnection_previous:
  assumes "map_of (connections m) k = Some old"
  shows "readyState (sockets (registerConnection k s m) old) \<noteq> OPEN"
    and "readyState (sockets m old) = OPEN
           \<Longrightarrow> readyState (sockets (registerConnection k s m) old) = CLOSING"
    and "readyState (sockets m old) \<noteq> OPEN
           \<Longrightarrow> readyState (sockets (registerConnection k s m) old) = readyState (sockets m old)"
  using assms
  by (auto simp: registerConnection_def hasConnection_def closeConnection_def
        socket_close_def Let_def)

text \<open>
  C7. For an order id with no registered channel, \<^verbatim>\<open>sendStatusUpdate\<close> does not raise and
  returns the manager as it was: the registry and every socket are unchanged. If the
  registered channel is not open, the call deletes the id from the registry and writes no
  frame: every socket is as before.
\<close>

theorem sendStatusUpdate_no_channel:
  "(map_of (connections m) orderId = None \<longrightarrow>
      sendStatusUpdate outcome orderId st d m = Inr m)
   \<and> (map_of (connections m) orderId = Some s \<and> readyState (sockets m s) \<noteq> OPEN \<longrightarrow>
        sendStatusUpdate outcome orderId st d m
          = Inr (m\<lparr> connections := AList.delete orderId (connections m) \<rparr>)
        \<and> \<not> hasConnection (m\<lparr> connections := AList.delete orderId (connections m) \<rparr>) orderId
        \<and> sockets (m\<lparr> connections := AList.delete orderId (connections m) \<rparr>) = sockets m)"
  by (simp add: sendStatusUpdate_def sendStatusUpdate_try_def hasConnection_def
        AList.delete_conv')

theorem sendStatusUpdate_no_channel_witness:
  "sendStatusUpdate Written ''order-3'' ROUTING NoData example_manager = Inr example_manager
   \<and> sendStatusUpdate Written ''order-2'' ROUTING NoData example_manager
       = Inr (example_manager\<lparr> connections := [(''order-1'', 0)] \<rparr>)"
  using sendStatusUpdate_no_channel
          [where m = example_manager and orderId = "''order-3''" and outcome = Written
             and st = ROUTING and d = NoData and s = 1]
        sendStatusUpdate_no_channel
          [where m = example_manager and orderId = "''order-2''" and outcome = Written
             and st = ROUTING and d = NoData and s = 1]
  by (simp add: example_manager_def fresh_socket_def)

lemma fold_delete_keys:
  "fst ` set (fold AList.delete ks al) = fst ` set al - set ks"
proof (induction ks arbitrary: al)
  case Nil
  then show ?case by simp
next
  case (Cons k ks)
  have "fst ` set (AList.delete k al) = fst ` set al - {k}"
    by (auto simp: AList.delete_eq image_iff)
  with Cons show ?case by auto
qed

lemma channels_of_empty:
  "k \<notin> fst ` set (connections m) \<Longrightarrow> channels_of m k = []"
  by (auto simp: channels_of_def filter_empty_conv)

lemma socket_event_deletes:
  "k \<in> set (close_handlers (sockets m s)) \<Longrightarrow> channels_of (socket_event s m) k = []"
  by (rule channels_of_empty) (simp add: socket_event_def fold_delete_keys)

lemma registerConnection_keeps_handlers:
  "set (close_handlers (sockets m s'))
     \<subseteq> set (close_handlers (sockets (registerConnection k s m) s'))"
  by (auto simp: registerConnection_def closeConnection_def socket_close_def Let_def
      split: option.splits)

text \<open>
  The close handler that \<^verbatim>\<open>registerConnection\<close> installed on a replaced socket is still
  there: when the close event of the replaced socket arrives, the handler deletes the order
  id from the registry, which by then maps it to the new socket. The order id then has no
  channel.
\<close>

lemma replaced_socket_close_event:
  assumes "k \<in> set (close_handlers (sockets m old))"
  shows "channels_of (socket_event old (registerConnection k new m)) k = []"
    and "map_of (connections (socket_event old (registerConnection k new m))) k = None"
proof -
  have h: "k \<in> set (close_handlers (sockets (registerConnection k new m) old))"
    using assms registerConnection_keeps_handlers by blast
  then show "channels_of (socket_event old (registerConnection k new m)) k = []"
    by (rule socket_event_deletes)
  have "k \<notin> fst ` set (connections (socket_event old (registerConnection k new m)))"
    using h by (simp add: socket_event_def fold_delete_keys)
  then show "map_of (connections (socket_event old (registerConnection k new m))) k = None"
    by (simp add: map_of_eq_None_iff)
qed

text \<open>
  C8. Registering a channel for an order id that already has one replaces it in the
  registry and closes the first channel: \<^verbatim>\<open>close()\<close> is called on it when it is open (it is
  closing on return), and a channel that is closing or closed stays so; a channel the server
  has accepted is in one of these three states, so the first channel is closing or closed on
  return, and in no case open. (A socket still connecting, which the server never holds,
  would be left connecting.) The registry holds at most one channel per order id when the
  manager is created and after every register, publish and unregister operation, and after
  a close event. When the close event of the replaced channel arrives, its handler deletes
  the order id from the registry, so the id then has no channel at all.
\<close>

theorem registerConnection_replaces:
  assumes "registry_ok m" and "map_of (connections m) orderId = Some old"
  shows "channels_of (registerConnection orderId new m) orderId = [new]
    \<and> map_of (connections (registerConnection orderId new m)) orderId = Some new
    \<and> readyState (sockets (registerConnection orderId new m) old) \<noteq> OPEN
    \<and> readyState (sockets (registerConnection orderId new m) old)
        = (if readyState (sockets m old) = OPEN then CLOSING else readyState (sockets m old))
    \<and> (readyState (sockets m old) \<noteq> CONNECTING \<longrightarrow>
          readyState (sockets (registerConnection orderId new m) old) = CLOSING
          \<or> readyState (sockets (registerConnection orderId new m) old) = CLOSED)
    \<and> (orderId \<in> set (close_handlers (sockets m old)) \<longrightarrow>
          channels_of (socket_event old (registerConnection orderId new m)) orderId = [])
    \<and> length (channels_of (new_WebSocketManager heap) k') \<le> 1
    \<and> length (channels_of (registerConnection k s m) k') \<le> 1
    \<and> (case sendStatusUpdate outcome k st d m of
          Inl e \<Rightarrow> False
        | Inr m' \<Rightarrow> length (channels_of m' k') \<le> 1)
    \<and> length (channels_of (closeConnection k m) k') \<le> 1
    \<and> length (channels_of (socket_event s m) k') \<le> 1"
proof -
  let ?m' = "registerConnection orderId new m"
  have ok: "registry_ok ?m'"
    using assms(1) by (rule registry_ok_registerConnection)
  have look: "map_of (connections ?m') orderId = Some new"
    by (rule registerConnection_lookup)
  have one: "channels_of ?m' orderId = [new]"
    using ok look filter_key_lookup [of "connections ?m'" orderId new]
    by (simp add: registry_ok_def channels_of_def)
  have closed: "readyState (sockets ?m' old) \<noteq> OPEN"
    using assms(2) by (rule registerConnection_previous(1))
  have state: "readyState (sockets ?m' old)
      = (if readyState (sockets m old) = OPEN then CLOSING else readyState (sockets m old))"
    using registerConnection_previous(2,3) [OF assms(2), of new] by simp
  have accepted: "readyState (sockets m old) \<noteq> CONNECTING \<longrightarrow>
      readyState (sockets ?m' old) = CLOSING \<or> readyState (sockets ?m' old) = CLOSED"
    unfolding state by (cases "readyState (sockets m old)") simp_all
  have stale: "orderId \<in> set (close_handlers (sockets m old)) \<longrightarrow>
      channels_of (socket_event old ?m') orderId = []"
    using replaced_socket_close_event(1) by blast
  have init: "length (channels_of (new_WebSocketManager heap) k') \<le> 1"
    using registry_ok_new by (rule channels_of_le1)
  have reg: "length (channels_of (registerConnection k s m) k') \<le> 1"
    using assms(1) by (intro channels_of_le1 registry_ok_registerConnection)
  have unreg: "length (channels_of (closeConnection k m) k') \<le> 1"
    using assms(1) by (intro channels_of_le1 registry_ok_closeConnection)
  have ev: "length (channels_of (socket_event s m) k') \<le> 1"
    using assms(1) by (intro channels_of_le1 registry_ok_socket_event)
  obtain m' where send: "sendStatusUpdate outcome k st d m = Inr m'"
    using sendStatusUpdate_returns by blast
  have "length (channels_of m' k') \<le> 1"
    using assms(1) send by (intro channels_of_le1) (rule registry_ok_sendStatusUpdate)
  with send have pub: "(case sendStatusUpdate outcome k st d m of
          Inl e \<Rightarrow> False | Inr m' \<Rightarrow> length (channels_of m' k') \<le> 1)"
    by simp
  from one look closed state accepted stale init reg pub unreg ev show ?thesis by blast
qed

theorem registerConnection_replaces_witness:
  "registry_ok registered_manager
   \<and> map_of (connections registered_manager) ''order-1'' = Some 0
   \<and> readyState (sockets registered_manager 0) = OPEN
   \<and> channels_of (registerConnection ''order-1'' 1 registered_manager) ''order-1'' = [1]
   \<and> readyState (sockets (registerConnection ''order-1'' 1 registered_manager) 0) = CLOSING
   \<and> channels_of (socket_event 0 (registerConnection ''order-1'' 1 registered_manager))
        ''order-1'' = []"
proof -
  have m: "connections registered_manager = [(''order-1'', 0)]"
      "readyState (sockets registered_manager 0) = OPEN"
      "close_handlers (sockets registered_manager 0) = [''order-1'']"
    by (simp_all add: registered_manager_def registerConnection_def hasConnection_def
          new_WebSocketManager_def fresh_socket_def Let_def)
  have ok: "registry_ok registered_manager"
    by (simp add: registry_ok_def m)
  have reg: "map_of (connections registered_manager) ''order-1'' = Some 0"
    by (simp add: m)
  show ?thesis
    using ok reg m(2,3)
      registerConnection_replaces [OF ok reg, where new = 1]
    by simp
qed


section \<open>The job queue: theorems\<close>

lemma Queue_add_id: "job_id (fst (Queue_add rb dflt name d jid q)) = jid"
  by (auto simp: Queue_add_def Let_def find_Some_iff split: option.splits)

lemma addOrder_result: "fst (addOrder None rb d q) = Inr (data_id d)"
  using Queue_add_id [of rb defaultJobOptions "''process-order''" d "data_id d" q]
  by (simp add: addOrder_def case_prod_beta)

lemma keyed_step: "list_all keyed q \<Longrightarrow> list_all keyed (queue_step rb ev q)"
  by (cases ev)
     (auto simp: addOrder_def Queue_add_def Let_def keyed_def list_all_iff
        split: option.splits prod.splits)

lemma keyed_fold: "list_all keyed q \<Longrightarrow> list_all keyed (fold (queue_step rb) evs q)"
  by (induction evs arbitrary: q) (auto simp: keyed_step)

lemma configured_step:
  "list_all default_configured q \<Longrightarrow> list_all default_configured (queue_step rb ev q)"
  by (cases ev)
     (auto simp: addOrder_def Queue_add_def Let_def default_configured_def list_all_iff
        split: option.splits prod.splits)

lemma configured_fold:
  "list_all default_configured q \<Longrightarrow> list_all default_configured (fold (queue_step rb) evs q)"
  by (induction evs arbitrary: q) (auto simp: configured_step)

lemma transition_keys_subset:
  "set (outstanding_keys (queue_step rb (Transition k st) q)) \<subseteq> set (outstanding_keys q)"
  by (induction q) (auto simp: outstanding_keys_def)

lemma distinct_transition:
  "distinct (outstanding_keys q)
     \<Longrightarrow> distinct (outstanding_keys (queue_step rb (Transition k st) q))"
proof (induction q)
  case Nil
  then show ?case by (simp add: outstanding_keys_def)
next
  case (Cons a q)
  have sub: "set (outstanding_keys (queue_step rb (Transition k st) q))
      \<subseteq> set (outstanding_keys q)"
    by (rule transition_keys_subset)
  from Cons.prems have d: "distinct (outstanding_keys q)"
    by (auto simp: outstanding_keys_def split: if_splits)
  have ih: "distinct (outstanding_keys (queue_step rb (Transition k st) q))"
    using Cons.IH d by simp
  show ?case
  proof (cases "outstanding a")
    case True
    with Cons.prems have "job_id a \<notin> set (outstanding_keys q)"
      by (simp add: outstanding_keys_def)
    with sub have "job_id a \<notin> set (outstanding_keys (queue_step rb (Transition k st) q))"
      by blast
    with ih show ?thesis using True by (auto simp: outstanding_keys_def)
  next
    case False
    with ih show ?thesis by (auto simp: outstanding_keys_def)
  qed
qed

lemma discard_keys: "outstanding_keys (queue_step rb (Discard k) q) = outstanding_keys q"
  by (induction q) (auto simp: outstanding_keys_def)

lemma distinct_enqueue:
  "distinct (outstanding_keys q)
     \<Longrightarrow> distinct (outstanding_keys (queue_step rb (Enqueue fault d) q))"
  by (auto simp: addOrder_def Queue_add_def Let_def outstanding_keys_def outstanding_def
        find_None_iff
      split: option.splits prod.splits)

lemma distinct_step:
  "distinct (outstanding_keys q) \<Longrightarrow> distinct (outstanding_keys (queue_step rb ev q))"
  by (cases ev) (simp_all only: distinct_enqueue distinct_transition discard_keys)

lemma distinct_fold:
  "distinct (outstanding_keys q)
     \<Longrightarrow> distinct (outstanding_keys (fold (queue_step rb) evs q))"
  by (induction evs arbitrary: q) (auto simp: distinct_step)

lemma find_snoc:
  "find P (xs @ [y])
     = (case find P xs of None \<Rightarrow> (if P y then Some y else None) | Some x \<Rightarrow> Some x)"
  by (induction xs) auto

lemma Queue_add_idem:
  "snd (Queue_add rb dflt name d jid (snd (Queue_add rb dflt name d jid q)))
     = snd (Queue_add rb dflt name d jid q)"
proof (cases "find (\<lambda>j. job_id j = jid \<and> (outstanding j \<or> rb)) q")
  case None
  then show ?thesis
    by (simp add: Queue_add_def Let_def find_snoc outstanding_def)
next
  case (Some j)
  then show ?thesis by (simp add: Queue_add_def)
qed

lemma addOrder_idem:
  "snd (addOrder None rb d (snd (addOrder None rb d q))) = snd (addOrder None rb d q)"
  using Queue_add_idem [of rb defaultJobOptions "''process-order''" d "data_id d" q]
  by (simp add: addOrder_def case_prod_beta)

lemma addOrder_outstanding:
  "data_id d \<in> set (outstanding_keys q) \<Longrightarrow> snd (addOrder fault rb d q) = q"
proof -
  assume "data_id d \<in> set (outstanding_keys q)"
  then have "\<exists>j. j \<in> set q \<and> job_id j = data_id d \<and> (outstanding j \<or> rb)"
    by (auto simp: outstanding_keys_def)
  then have "find (\<lambda>j. job_id j = data_id d \<and> (outstanding j \<or> rb)) q \<noteq> None"
    by (simp add: find_None_iff)
  then show ?thesis
    by (auto simp: addOrder_def Queue_add_def split: option.splits)
qed

text \<open>
  C5. The job \<^verbatim>\<open>addOrder\<close> enqueues is keyed by the order id: the id it returns is the
  order's, and every job of the queue has the id of its payload. Enqueueing an order id that
  has a job in a non-terminal state leaves the queue as it is, so a second call creates no
  duplicate, and after any sequence of enqueues, job transitions and discards at most one
  outstanding job exists per order id.
\<close>

theorem addOrder_keyed_no_duplicate:
  "fst (addOrder None rb orderData q) = Inr (data_id orderData)
   \<and> list_all keyed (queue_run rb evs)
   \<and> (data_id orderData \<in> set (outstanding_keys q) \<longrightarrow>
        snd (addOrder fault rb orderData q) = q)
   \<and> snd (addOrder None rb orderData (snd (addOrder None rb orderData q)))
       = snd (addOrder None rb orderData q)
   \<and> distinct (outstanding_keys (queue_run rb evs))"
proof -
  have "list_all keyed (queue_run rb evs)"
    unfolding queue_run_def by (rule keyed_fold) simp
  moreover have "distinct (outstanding_keys (queue_run rb evs))"
    unfolding queue_run_def by (rule distinct_fold) (simp add: outstanding_keys_def)
  ultimately show ?thesis
    using addOrder_result [of rb orderData q] addOrder_idem [of rb orderData q]
      addOrder_outstanding [of orderData q fault rb]
    by blast
qed

theorem addOrder_keyed_no_duplicate_witness:
  "outstanding_keys (queue_run False [Enqueue None example_job_data]) = [''order-1'']
   \<and> snd (addOrder None False example_job_data
            (queue_run False [Enqueue None example_job_data]))
       = queue_run False [Enqueue None example_job_data]
   \<and> length (queue_run False [Enqueue None example_job_data, Enqueue None example_job_data]) = 1"
proof -
  let ?q = "queue_run False [Enqueue None example_job_data]"
  have keys: "outstanding_keys ?q = [''order-1'']"
    by (simp add: queue_run_def addOrder_def Queue_add_def Let_def outstanding_keys_def
          outstanding_def example_job_data_def)
  then have mem: "data_id example_job_data \<in> set (outstanding_keys ?q)"
    by (simp add: example_job_data_def)
  have same: "snd (addOrder None False example_job_data ?q) = ?q"
    using addOrder_keyed_no_duplicate
            [where orderData = example_job_data and q = ?q and rb = False and fault = None]
          mem
    by blast
  have two: "queue_run False [Enqueue None example_job_data, Enqueue None example_job_data]
      = snd (addOrder None False example_job_data ?q)"
    by (simp add: queue_run_def)
  have "length ?q = 1"
    by (simp add: queue_run_def addOrder_def Queue_add_def Let_def)
  with keys same two show ?thesis by simp
qed

text \<open>
  C6. The queue's default job options are exactly 3 attempts, exponential backoff with a
  base delay of 1000 ms (one second), retention of the last 100 completed and the last 50
  failed jobs; the delays before the two retries are 1000 ms and 2000 ms, each retry delay
  the double of the one before; and every job of the queue is created with these options,
  \<^verbatim>\<open>addOrder\<close> overriding nothing but the job id.
\<close>

theorem defaultJobOptions_retry_retention:
  "attempts defaultJobOptions = 3
   \<and> backoff defaultJobOptions = \<lparr> backoff_type = Exponential, backoff_delay = 1000 \<rparr>
   \<and> retry_delays defaultJobOptions = [1000, 2000]
   \<and> retry_delay (backoff defaultJobOptions) (Suc (Suc n))
       = 2 * retry_delay (backoff defaultJobOptions) (Suc n)
   \<and> removeOnComplete defaultJobOptions = 100
   \<and> removeOnFail defaultJobOptions = 50
   \<and> list_all default_configured (queue_run rb evs)"
proof -
  have "list_all default_configured (queue_run rb evs)"
    unfolding queue_run_def by (rule configured_fold) simp
  moreover have "retry_delays defaultJobOptions = [1000, 2000]"
    by (simp add: retry_delays_def retry_delay_def defaultJobOptions_def upt_rec)
  moreover have "retry_delay (backoff defaultJobOptions) (Suc (Suc n))
       = 2 * retry_delay (backoff defaultJobOptions) (Suc n)"
    by (simp add: retry_delay_def defaultJobOptions_def)
  ultimately show ?thesis
    by (simp add: defaultJobOptions_def)
qed


section \<open>The worker pool: theorems\<close>

lemma workerOptions_values:
  "concurrency workerOptions = 10" "limiter_max (limiter workerOptions) = 100"
  "limiter_duration (limiter workerOptions) = 60000"
  by (simp_all add: workerOptions_def)

lemma pool_step_running:
  "length (running s) \<le> concurrency opts
   \<Longrightarrow> length (running (pool_step opts ev s)) \<le> concurrency opts"
  by (cases ev) (auto simp: may_start_def length_remove1 split: list.splits)

lemma pool_step_window:
  assumes "starts_in_window a (limiter_duration (limiter opts)) s \<le> limiter_max (limiter opts)"
  shows "starts_in_window a (limiter_duration (limiter opts)) (pool_step opts ev s)
           \<le> limiter_max (limiter opts)"
proof (cases ev)
  case Poll
  show ?thesis
  proof (cases "waiting s")
    case Nil
    with Poll assms show ?thesis by simp
  next
    case (Cons j js)
    show ?thesis
    proof (cases "may_start opts s")
      case False
      with Poll Cons assms show ?thesis by simp
    next
      case True
      let ?d = "limiter_duration (limiter opts)"
      have step: "starts (pool_step opts ev s) = clock s # starts s"
        using Poll Cons True by simp
      show ?thesis
      proof (cases "a < clock s \<and> clock s \<le> a + ?d")
        case False
        then show ?thesis using assms by (auto simp: starts_in_window_def step)
      next
        case in_window: True
        have "length (filter (\<lambda>t. a < t \<and> t \<le> a + ?d) (starts s))
            \<le> length (filter (\<lambda>t. clock s < t + ?d) (starts s))"
        proof -
          have "filter (\<lambda>t. a < t \<and> t \<le> a + ?d) (starts s)
              = filter (\<lambda>t. a < t \<and> t \<le> a + ?d) (filter (\<lambda>t. clock s < t + ?d) (starts s))"
            using in_window by (auto intro!: filter_cong)
          then show ?thesis by (metis length_filter_le)
        qed
        moreover have "length (filter (\<lambda>t. clock s < t + ?d) (starts s))
            < limiter_max (limiter opts)"
          using True by (simp add: may_start_def recent_starts_def)
        ultimately show ?thesis using in_window by (simp add: starts_in_window_def step)
      qed
    qed
  qed
qed (use assms in \<open>simp_all add: starts_in_window_def\<close>)

lemma pool_step_jobs:
  "mset (waiting (pool_step opts ev s)) + mset (running (pool_step opts ev s))
     + mset (finished (pool_step opts ev s))
   = mset (waiting s) + mset (running s) + mset (finished s)
     + mset (arrivals [ev])"
  by (cases ev) (auto split: list.splits)

lemma arrivals_append: "arrivals (xs @ ys) = arrivals xs @ arrivals ys"
  by (induction xs rule: arrivals.induct) simp_all

lemma pool_run_snoc: "pool_run opts (evs @ [ev]) = pool_step opts ev (pool_run opts evs)"
  by (simp add: pool_run_def)

lemma pool_run_running: "length (running (pool_run opts evs)) \<le> concurrency opts"
proof (induction evs rule: rev_induct)
  case Nil
  then show ?case by (simp add: pool_run_def new_pool_def)
next
  case (snoc ev evs)
  then show ?case unfolding pool_run_snoc by (rule pool_step_running)
qed

lemma pool_run_window:
  "starts_in_window a (limiter_duration (limiter opts)) (pool_run opts evs)
     \<le> limiter_max (limiter opts)"
proof (induction evs rule: rev_induct)
  case Nil
  then show ?case by (simp add: pool_run_def new_pool_def starts_in_window_def)
next
  case (snoc ev evs)
  then show ?case unfolding pool_run_snoc by (rule pool_step_window)
qed

lemma pool_run_jobs:
  "mset (waiting (pool_run opts evs)) + mset (running (pool_run opts evs))
     + mset (finished (pool_run opts evs))
   = mset (arrivals evs)"
proof (induction evs rule: rev_induct)
  case Nil
  then show ?case by (simp add: pool_run_def new_pool_def)
next
  case (snoc ev evs)
  then show ?case
    unfolding pool_run_snoc arrivals_append using pool_step_jobs [of opts ev "pool_run opts evs"]
    by simp
qed

lemma pool_step_Poll:
  "pool_step opts Poll s
     = (if waiting s \<noteq> [] \<and> length (running s) < concurrency opts
           \<and> recent_starts opts s < limiter_max (limiter opts)
        then s\<lparr> waiting := tl (waiting s), running := running s @ [hd (waiting s)],
               starts := clock s # starts s \<rparr>
        else s)"
  by (cases "waiting s") (simp_all add: may_start_def)

lemma pool_run_example:
  "pool_run small_options example_events
     = \<lparr> clock = 0, waiting = [''d'', ''e''], running = [''c''], finished = [''a'', ''b''],
         starts = [0, 0, 0] \<rparr>
   \<and> pool_run small_options (example_events @ [Advance 10, Poll])
     = \<lparr> clock = 10, waiting = [''e''], running = [''c'', ''d''], finished = [''a'', ''b''],
         starts = [10, 0, 0, 0] \<rparr>"
  by (simp add: pool_run_def example_events_def small_options_def new_pool_def may_start_def
        recent_starts_def)

text \<open>
  C9. The worker is constructed with concurrency 10 and a limiter of 100 per 60000 ms. With
  these options, after any sequence of arrivals, polls, finished jobs and passing time the
  pool runs at most 10 jobs, any window of 60000 ms (from a time \<open>a\<close>, exclusive, to
  \<open>a + 60000\<close>) holds at most 100 job starts, and every job that has arrived is waiting,
  running or finished: none is rejected. A poll starts the
  oldest waiting job when fewer than 10 jobs run and fewer than 100 starts lie within the
  last 60000 ms, and otherwise leaves the pool as it is, the job still waiting.
\<close>

theorem worker_pool_limits:
  "concurrency workerOptions = 10
   \<and> limiter workerOptions = \<lparr> limiter_max = 100, limiter_duration = 60000 \<rparr>
   \<and> length (running (pool_run workerOptions evs)) \<le> 10
   \<and> starts_in_window a 60000 (pool_run workerOptions evs) \<le> 100
   \<and> mset (waiting (pool_run workerOptions evs)) + mset (running (pool_run workerOptions evs))
        + mset (finished (pool_run workerOptions evs))
      = mset (arrivals evs)
   \<and> pool_step workerOptions Poll (pool_run workerOptions evs)
      = (if waiting (pool_run workerOptions evs) \<noteq> []
            \<and> length (running (pool_run workerOptions evs)) < 10
            \<and> recent_starts workerOptions (pool_run workerOptions evs) < 100
         then (pool_run workerOptions evs)
                \<lparr> waiting := tl (waiting (pool_run workerOptions evs)),
                  running := running (pool_run workerOptions evs)
                             @ [hd (waiting (pool_run workerOptions evs))],
                  starts := clock (pool_run workerOptions evs)
                            # starts (pool_run workerOptions evs) \<rparr>
         else pool_run workerOptions evs)"
proof -
  have run: "length (running (pool_run workerOptions evs)) \<le> 10"
    using pool_run_running [of workerOptions evs] by (simp add: workerOptions_values)
  have win: "starts_in_window a 60000 (pool_run workerOptions evs) \<le> 100"
    using pool_run_window [of a workerOptions evs] by (simp add: workerOptions_values)
  have opts: "concurrency workerOptions = 10"
      "limiter workerOptions = \<lparr> limiter_max = 100, limiter_duration = 60000 \<rparr>"
    by (simp_all add: workerOptions_def)
  have jobs: "mset (waiting (pool_run workerOptions evs))
        + mset (running (pool_run workerOptions evs))
        + mset (finished (pool_run workerOptions evs))
      = mset (arrivals evs)"
    by (rule pool_run_jobs)
  note poll = pool_step_Poll [of workerOptions "pool_run workerOptions evs",
      unfolded workerOptions_values]
  from opts run win jobs poll show ?thesis by blast
qed


section \<open>The order processor: theorems\<close>

lemma updateOrderStatus_ok:
  "fault = None \<Longrightarrow> t orderId = Some row
     \<Longrightarrow> updateOrderStatus fault orderId st t = Inr (t(orderId \<mapsto> row\<lparr> status := st \<rparr>))"
  by (simp add: updateOrderStatus_def prisma_update_def)

lemma updateOrderStatus_fails:
  "fault \<noteq> None \<or> t orderId = None
     \<Longrightarrow> updateOrderStatus fault orderId st t
           = Inl (case fault of Some e \<Rightarrow> e | None \<Rightarrow> Error ''Record to update not found.'')"
  by (auto simp: updateOrderStatus_def prisma_update_def split: option.splits)

lemma processOrder_try_lookup_fails:
  "processOrder_try env_lookup_fails True ''order-1'' example_state
     = (Some db_down,
        \<lparr> db = [''order-1'' \<mapsto> example_order\<lparr> status := ROUTING \<rparr>],
          emitted = [(''order-1'', ROUTING, NoData)] \<rparr>)"
  by (simp add: processOrder_try_def emitWebSocketUpdate_def Let_def updateOrderStatus_def
        prisma_update_def prisma_findUnique_def env_ok_def env_lookup_fails_def
        example_state_def example_order_def)

lemma processOrder_try_db_down:
  "processOrder_try env_db_down True ''order-1'' example_state
     = (Some db_down,
        \<lparr> db = [''order-1'' \<mapsto> example_order\<lparr> status := ROUTING \<rparr>],
          emitted = [(''order-1'', ROUTING, NoData)] \<rparr>)"
  by (simp add: processOrder_try_def emitWebSocketUpdate_def Let_def updateOrderStatus_def
        prisma_update_def prisma_findUnique_def env_ok_def env_db_down_def
        example_state_def example_order_def)

lemma worker_two_attempts:
  "fst (processOrder env1 wsEmitter orderId s) \<noteq> Inr ()
   \<Longrightarrow> fst (processOrder env2 wsEmitter orderId (snd (processOrder env1 wsEmitter orderId s)))
         = Inr ()
   \<Longrightarrow> worker_run_job [env1, env2] wsEmitter orderId s
         = snd (processOrder env2 wsEmitter orderId (snd (processOrder env1 wsEmitter orderId s)))"
  by (auto simp: worker_run_job_def defaultJobOptions_def numeral_3_eq_3
      split: prod.splits sum.splits)

text \<open>
  C1, as stated, fails: the queue gives every job three attempts, and the driver throws
  after it has published FAILED. With a first attempt whose lookup fails and a second that
  succeeds, the worker runs \<^verbatim>\<open>processOrder\<close> twice on the order, and the statuses
  published for it are PENDING, ROUTING, FAILED, ROUTING, BUILDING, SUBMITTED, CONFIRMED:
  FAILED is not final, and ROUTING follows it.
\<close>

theorem published_after_retry_counterexample:
  "worker_run_job [env_lookup_fails, env_ok] True ''order-1'' example_state
     = snd (processOrder env_ok True ''order-1''
             (snd (processOrder env_lookup_fails True ''order-1'' example_state)))
   \<and> published (worker_run_job [env_lookup_fails, env_ok] True ''order-1'' example_state)
       = [PENDING, ROUTING, FAILED, ROUTING, BUILDING, SUBMITTED, CONFIRMED]
   \<and> \<not> in_pipeline_order
         (published (worker_run_job [env_lookup_fails, env_ok] True ''order-1'' example_state))"
proof -
  have first: "processOrder env_lookup_fails True ''order-1'' example_state
      = (Inl db_down,
         \<lparr> db = [''order-1'' \<mapsto> example_order\<lparr> status := FAILED \<rparr>],
           emitted = [(''order-1'', ROUTING, NoData),
                      (''order-1'', FAILED, ErrorData ''Connection refused'')] \<rparr>)"
  proof -
    have fault: "fault_failed env_lookup_fails = None"
      by (simp add: env_lookup_fails_def env_ok_def)
    show ?thesis
      by (simp add: processOrder_def processOrder_try_lookup_fails fault updateOrderStatus_def
            prisma_update_def emitWebSocketUpdate_def db_down_def)
  qed
  have second: "fst (processOrder env_ok True ''order-1''
                  (snd (processOrder env_lookup_fails True ''order-1'' example_state)))
      = Inr ()"
    unfolding first snd_conv
    by (simp add: processOrder_def processOrder_try_def emitWebSocketUpdate_def Let_def
          updateOrderStatus_def prisma_update_def prisma_findUnique_def executeBestRoute_def
          env_ok_def example_order_def)
  have run: "worker_run_job [env_lookup_fails, env_ok] True ''order-1'' example_state
     = snd (processOrder env_ok True ''order-1''
             (snd (processOrder env_lookup_fails True ''order-1'' example_state)))"
    using second by (intro worker_two_attempts) (simp_all add: first)
  have pub: "published (snd (processOrder env_ok True ''order-1''
             (snd (processOrder env_lookup_fails True ''order-1'' example_state))))
     = [PENDING, ROUTING, FAILED, ROUTING, BUILDING, SUBMITTED, CONFIRMED]"
    unfolding first snd_conv
    by (simp add: processOrder_def processOrder_try_def emitWebSocketUpdate_def Let_def
          published_def updateOrderStatus_def prisma_update_def prisma_findUnique_def
          executeBestRoute_def env_ok_def example_order_def)
  have "\<not> in_pipeline_order
         [PENDING, ROUTING, FAILED, ROUTING, BUILDING, SUBMITTED, CONFIRMED]"
    by (simp add: in_pipeline_order_def pipeline_def)
  with run pub show ?thesis by simp
qed

text \<open>
  C1, amended. Within one attempt, that is one run of \<^verbatim>\<open>processOrder\<close>, the statuses
  published for the order (PENDING from the intake, then what the run emits) are a prefix of
  PENDING, ROUTING, BUILDING, SUBMITTED, CONFIRMED, or such a prefix followed by a final
  FAILED, whatever fails and whether or not an emitter is configured.
\<close>

theorem published_in_pipeline_order_per_attempt:
  "in_pipeline_order
     (published (snd (processOrder env wsEmitter orderId \<lparr> db = t, emitted = [] \<rparr>)))"
  by (auto simp: processOrder_def processOrder_try_def emitWebSocketUpdate_def Let_def
        published_def in_pipeline_order_def pipeline_def
      split: sum.splits option.splits prod.splits)

text \<open>
  C2, as stated, fails: when the update to FAILED itself throws (here the database is
  unreachable from the lookup on), the order stays ROUTING in the store, no FAILED update is
  published, and what reaches the Worker Pool is the error of that update.
\<close>

theorem processOrder_db_down_counterexample:
  "fst (processOrder env_db_down True ''order-1'' example_state) = Inl db_timeout
   \<and> map_option status
        (db (snd (processOrder env_db_down True ''order-1'' example_state)) ''order-1'')
       = Some ROUTING
   \<and> published (snd (processOrder env_db_down True ''order-1'' example_state))
       = [PENDING, ROUTING]"
proof -
  have fault: "fault_failed env_db_down = Some db_timeout"
    by (simp add: env_db_down_def env_ok_def)
  have "processOrder env_db_down True ''order-1'' example_state
      = (Inl db_timeout,
         \<lparr> db = [''order-1'' \<mapsto> example_order\<lparr> status := ROUTING \<rparr>],
           emitted = [(''order-1'', ROUTING, NoData)] \<rparr>)"
    by (simp add: processOrder_def processOrder_try_db_down fault updateOrderStatus_def
          prisma_update_def)
  then show ?thesis by (simp add: published_def)
qed

text \<open>
  C2, amended. When a step of the \<^verbatim>\<open>try\<close> block throws, the driver tries to set the
  order to FAILED in the store. If that update succeeds (the store answers and the order's
  row exists), the order is FAILED in the store, a FAILED update carrying the message of the
  error is emitted last (when an emitter is configured), and the original error is thrown
  again. If the update itself throws, \<^verbatim>\<open>processOrder\<close> throws the error of the update,
  and the store and the emitted updates stay as the failed step left them: no FAILED update
  is published.
\<close>

theorem processOrder_failure_handling:
  assumes "processOrder_try env wsEmitter orderId s = (Some e, s1)"
  shows "(fault_failed env = None \<and> db s1 orderId \<noteq> None \<longrightarrow>
            fst (processOrder env wsEmitter orderId s) = Inl e
          \<and> map_option status (db (snd (processOrder env wsEmitter orderId s)) orderId)
              = Some FAILED
          \<and> emitted (snd (processOrder env wsEmitter orderId s))
              = emitted s1
                @ (if wsEmitter then [(orderId, FAILED, ErrorData (error_message e))] else []))
       \<and> (fault_failed env \<noteq> None \<or> db s1 orderId = None \<longrightarrow>
            fst (processOrder env wsEmitter orderId s)
              = Inl (case fault_failed env of
                       Some e' \<Rightarrow> e'
                     | None \<Rightarrow> Error ''Record to update not found.'')
          \<and> snd (processOrder env wsEmitter orderId s) = s1)"
proof (intro conjI impI)
  assume ok: "fault_failed env = None \<and> db s1 orderId \<noteq> None"
  then obtain row where row: "db s1 orderId = Some row" by blast
  have upd: "updateOrderStatus (fault_failed env) orderId FAILED (db s1)
      = Inr ((db s1)(orderId \<mapsto> row\<lparr> status := FAILED \<rparr>))"
    using ok row by (simp add: updateOrderStatus_ok)
  show "fst (processOrder env wsEmitter orderId s) = Inl e"
    using assms upd by (simp add: processOrder_def)
  show "map_option status (db (snd (processOrder env wsEmitter orderId s)) orderId)
      = Some FAILED"
    using assms upd by (simp add: processOrder_def emitWebSocketUpdate_def)
  show "emitted (snd (processOrder env wsEmitter orderId s))
      = emitted s1
        @ (if wsEmitter then [(orderId, FAILED, ErrorData (error_message e))] else [])"
    using assms upd by (simp add: processOrder_def emitWebSocketUpdate_def)
next
  assume bad: "fault_failed env \<noteq> None \<or> db s1 orderId = None"
  then have upd: "updateOrderStatus (fault_failed env) orderId FAILED (db s1)
      = Inl (case fault_failed env of
               Some e' \<Rightarrow> e'
             | None \<Rightarrow> Error ''Record to update not found.'')"
    by (rule updateOrderStatus_fails)
  show "fst (processOrder env wsEmitter orderId s)
      = Inl (case fault_failed env of
               Some e' \<Rightarrow> e'
             | None \<Rightarrow> Error ''Record to update not found.'')"
    using assms upd by (simp add: processOrder_def)
  show "snd (processOrder env wsEmitter orderId s) = s1"
    using assms upd by (simp add: processOrder_def)
qed

theorem processOrder_failure_handling_witness:
  "fst (processOrder env_lookup_fails True ''order-1'' example_state) = Inl db_down
   \<and> map_option status
        (db (snd (processOrder env_lookup_fails True ''order-1'' example_state)) ''order-1'')
       = Some FAILED
   \<and> emitted (snd (processOrder env_lookup_fails True ''order-1'' example_state))
       = [(''order-1'', ROUTING, NoData),
          (''order-1'', FAILED, ErrorData ''Connection refused'')]
   \<and> emitted (snd (processOrder env_db_down True ''order-1'' example_state))
       = [(''order-1'', ROUTING, NoData)]"
proof -
  have ok: "fault_failed env_lookup_fails = None"
    by (simp add: env_lookup_fails_def env_ok_def)
  have bad: "fault_failed env_db_down \<noteq> None"
    by (simp add: env_db_down_def env_ok_def)
  show ?thesis
    using processOrder_failure_handling [OF processOrder_try_lookup_fails] ok
          processOrder_failure_handling [OF processOrder_try_db_down] bad
    by (simp add: db_down_def)
qed


section \<open>The intake route: theorems\<close>

lemma execute_order_rejects:
  "falsy_string (query_tokenIn q) \<or> falsy_string (query_tokenOut q)
     \<or> falsy_number (query_amount q) \<or> falsy_string (query_orderType q)
   \<Longrightarrow> execute_order env q sock srv
       = srv\<lparr> manager := socket_close sock
                (socket_send sock (ErrorResponse missing_parameters None) (manager srv)) \<rparr>"
  by (simp add: execute_order_def)

lemma execute_order_accepts:
  "query_tokenIn q = Some tIn \<Longrightarrow> tIn \<noteq> [] \<Longrightarrow> query_tokenOut q = Some tOut \<Longrightarrow> tOut \<noteq> []
   \<Longrightarrow> query_orderType q = Some oType \<Longrightarrow> oType \<noteq> [] \<Longrightarrow> \<not> falsy_number (query_amount q)
   \<Longrightarrow> execute_order env q sock srv
         = accept_order env tIn tOut (query_amount q) oType sock srv"
  by (simp add: execute_order_def falsy_string_def)

lemma falsy_parameters:
  "(falsy_string (query_tokenIn q) \<or> falsy_string (query_tokenOut q)
      \<or> falsy_number (query_amount q) \<or> falsy_string (query_orderType q))
   = (query_tokenIn q = None \<or> query_tokenIn q = Some []
      \<or> query_tokenOut q = None \<or> query_tokenOut q = Some []
      \<or> query_orderType q = None \<or> query_orderType q = Some []
      \<or> query_amount q = NaN \<or> query_amount q = Num 0)"
  by (auto simp: falsy_string_def falsy_number_def)

lemma truthy_parameters:
  "\<not> (falsy_string (query_tokenIn q) \<or> falsy_string (query_tokenOut q)
        \<or> falsy_number (query_amount q) \<or> falsy_string (query_orderType q))
   \<Longrightarrow> \<exists>tIn tOut oType.
         query_tokenIn q = Some tIn \<and> tIn \<noteq> [] \<and> query_tokenOut q = Some tOut \<and> tOut \<noteq> []
       \<and> query_orderType q = Some oType \<and> oType \<noteq> [] \<and> \<not> falsy_number (query_amount q)"
  by (auto simp: falsy_string_def)

lemma reject_connections:
  "connections (socket_close sock (socket_send sock f m)) = connections m"
  by (simp add: socket_close_def socket_send_def)

lemma reject_effects:
  assumes "readyState (sockets m sock) = OPEN"
  shows "sent (sockets (socket_close sock (socket_send sock f m)) sock)
           = sent (sockets m sock) @ [f]"
    and "readyState (sockets (socket_close sock (socket_send sock f m)) sock) = CLOSING"
  using assms by (simp_all add: socket_close_def socket_send_def)

lemma socket_send_connections: "connections (socket_send s f m) = connections m"
  by (simp add: socket_send_def)

lemma socket_send_readyState:
  "readyState (sockets (socket_send s f m) s') = readyState (sockets m s')"
  by (simp add: socket_send_def)

lemma accept_registers:
  "map_of (connections (manager (accept_order env tIn tOut x oType sock srv))) (uuid env)
     = Some sock"
  by (auto simp: accept_order_def Let_def socket_send_connections registerConnection_lookup
      split: sum.splits prod.splits)

lemma registerConnection_fresh_readyState:
  "map_of (connections m) k = None
   \<Longrightarrow> readyState (sockets (registerConnection k s m) s') = readyState (sockets m s')"
  by (simp add: registerConnection_def hasConnection_def Let_def)

lemma registerConnection_fresh_sent:
  "map_of (connections m) k = None
   \<Longrightarrow> sent (sockets (registerConnection k s m) s') = sent (sockets m s')"
  by (simp add: registerConnection_def hasConnection_def Let_def)

lemma accept_readyState:
  "map_of (connections (manager srv)) (uuid env) = None
   \<Longrightarrow> readyState (sockets (manager (accept_order env tIn tOut x oType sock srv)) sock)
       = readyState (sockets (manager srv) sock)"
  by (auto simp: accept_order_def Let_def socket_send_readyState
        registerConnection_fresh_readyState
      split: sum.splits prod.splits)

lemma accept_frames:
  "\<exists>fs. sent (sockets (manager (accept_order env tIn tOut x oType sock srv)) sock)
           = sent (sockets (manager srv) sock) @ fs
      \<and> ErrorResponse missing_parameters None \<notin> set fs
      \<and> (readyState (sockets (manager srv) sock) = OPEN
           \<and> map_of (connections (manager srv)) (uuid env) = None
         \<longrightarrow> fs \<noteq> [] \<and> hd fs = pending_response (uuid env))"
  by (auto simp: accept_order_def Let_def socket_send_def registerConnection_def
        closeConnection_def socket_close_def missing_parameters_def hasConnection_def
        pending_response_def
      split: sum.splits prod.splits option.splits)

lemma accept_effects:
  assumes "fault_create env = None" and "order_rows srv (uuid env) = None"
    and "fault_enqueue env = None" and "uuid env \<notin> job_id ` set (jobs srv)"
  shows "order_rows (accept_order env tIn tOut x oType sock srv) (uuid env)
           = Some (created_order (uuid env) tIn tOut x oType)"
    and "jobs (accept_order env tIn tOut x oType sock srv)
           = jobs srv @ [queued_job (uuid env) tIn tOut x oType]"
    and "readyState (sockets (manager srv) sock) = OPEN
         \<Longrightarrow> map_of (connections (manager srv)) (uuid env) = None
         \<Longrightarrow> sent (sockets (manager (accept_order env tIn tOut x oType sock srv)) sock)
           = sent (sockets (manager srv) sock) @ [pending_response (uuid env)]"
proof -
  let ?job = "queued_job (uuid env) tIn tOut x oType"
  have find: "find (\<lambda>j. job_id j = uuid env \<and> (outstanding j \<or> queue_retained_blocks env))
                (jobs srv) = None"
    using assms(4) by (force simp: find_None_iff)
  have create: "prisma_create (fault_create env) (created_order (uuid env) tIn tOut x oType)
                  (order_rows srv)
      = Inr ((order_rows srv)(uuid env \<mapsto> created_order (uuid env) tIn tOut x oType))"
    using assms(1,2) by (simp add: prisma_create_def created_order_def)
  have add: "addOrder (fault_enqueue env) (queue_retained_blocks env)
               (queued_data (uuid env) tIn tOut x oType) (jobs srv)
      = (Inr (uuid env), jobs srv @ [?job])"
    using assms(3) find
    by (simp add: addOrder_def Queue_add_def Let_def queued_data_def queued_job_def)
  have acc: "accept_order env tIn tOut x oType sock srv
      = srv\<lparr> order_rows :=
               (order_rows srv)(uuid env \<mapsto> created_order (uuid env) tIn tOut x oType),
             jobs := jobs srv @ [?job],
             manager := socket_send sock (pending_response (uuid env))
               (registerConnection (uuid env) sock (manager srv)) \<rparr>"
    by (simp add: accept_order_def Let_def create add)
  show "order_rows (accept_order env tIn tOut x oType sock srv) (uuid env)
           = Some (created_order (uuid env) tIn tOut x oType)"
    by (simp add: acc)
  show "jobs (accept_order env tIn tOut x oType sock srv) = jobs srv @ [?job]"
    by (simp add: acc)
  show "readyState (sockets (manager srv) sock) = OPEN
         \<Longrightarrow> map_of (connections (manager srv)) (uuid env) = None
         \<Longrightarrow> sent (sockets (manager (accept_order env tIn tOut x oType sock srv)) sock)
           = sent (sockets (manager srv) sock) @ [pending_response (uuid env)]"
    by (simp add: acc socket_send_def registerConnection_def hasConnection_def Let_def)
qed

text \<open>
  C10, as stated, fails: the test \<^verbatim>\<open>!tokenIn\<close> also holds of the empty string. A request
  whose three parameters are all there, \<^verbatim>\<open>tokenIn\<close> with an empty value, and whose amount
  parses to 100 is rejected: it gets the error frame, the socket is closed, and no row and
  no job are created.
\<close>

theorem execute_order_empty_token_counterexample:
  "query_tokenIn empty_token_query \<noteq> None
   \<and> query_tokenOut empty_token_query \<noteq> None
   \<and> query_orderType empty_token_query \<noteq> None
   \<and> query_amount empty_token_query = Num 100
   \<and> sent (sockets (manager
        (execute_order example_request empty_token_query 0 example_server)) 0)
       = [ErrorResponse missing_parameters None]
   \<and> readyState (sockets (manager
        (execute_order example_request empty_token_query 0 example_server)) 0) = CLOSING
   \<and> order_rows (execute_order example_request empty_token_query 0 example_server)
        ''order-1'' = None
   \<and> jobs (execute_order example_request empty_token_query 0 example_server) = []"
  by (simp add: execute_order_def empty_token_query_def falsy_string_def example_server_def
        new_WebSocketManager_def fresh_socket_def socket_send_def socket_close_def)

text \<open>
  C10, amended. The handler rejects the request exactly when \<^verbatim>\<open>tokenIn\<close>,
  \<^verbatim>\<open>tokenOut\<close> or \<^verbatim>\<open>orderType\<close> is absent or empty, or the amount parses to NaN or to
  0. For a rejected request it sends the error frame about missing parameters and closes
  the socket (on an open socket the frame is written and the socket is closing), and the
  order table, the queue and the registry are as they were. Every other request, whatever
  its amount (negative and infinite ones too), is accepted: the socket is registered under
  the order id, it gets no frame about missing parameters, with an id new to the registry
  its ready state is as it was and on an open socket the first frame written is the PENDING
  response; with an id new to the order table and the queue, the database and the queue
  answering, the order row is created with the amount of the request and its job is
  enqueued, and nothing but the PENDING response is written. In particular a negative
  amount passes the validation and its order row and job are created.
\<close>

theorem execute_order_validation:
  "(if query_tokenIn q = None \<or> query_tokenIn q = Some []
        \<or> query_tokenOut q = None \<or> query_tokenOut q = Some []
        \<or> query_orderType q = None \<or> query_orderType q = Some []
        \<or> query_amount q = NaN \<or> query_amount q = Num 0
     then execute_order env q sock srv
            = srv\<lparr> manager := socket_close sock
                    (socket_send sock (ErrorResponse missing_parameters None) (manager srv)) \<rparr>
        \<and> order_rows (execute_order env q sock srv) = order_rows srv
        \<and> jobs (execute_order env q sock srv) = jobs srv
        \<and> connections (manager (execute_order env q sock srv)) = connections (manager srv)
        \<and> (readyState (sockets (manager srv) sock) = OPEN \<longrightarrow>
              sent (sockets (manager (execute_order env q sock srv)) sock)
                = sent (sockets (manager srv) sock) @ [ErrorResponse missing_parameters None]
            \<and> readyState (sockets (manager (execute_order env q sock srv)) sock) = CLOSING)
     else (\<exists>tIn tOut oType.
            query_tokenIn q = Some tIn \<and> query_tokenOut q = Some tOut
          \<and> query_orderType q = Some oType
          \<and> map_of (connections (manager (execute_order env q sock srv))) (uuid env) = Some sock
          \<and> (\<exists>fs. sent (sockets (manager (execute_order env q sock srv)) sock)
                     = sent (sockets (manager srv) sock) @ fs
                \<and> ErrorResponse missing_parameters None \<notin> set fs
                \<and> (readyState (sockets (manager srv) sock) = OPEN
                      \<and> map_of (connections (manager srv)) (uuid env) = None
                    \<longrightarrow> fs \<noteq> [] \<and> hd fs = pending_response (uuid env)))
          \<and> (map_of (connections (manager srv)) (uuid env) = None \<longrightarrow>
                readyState (sockets (manager (execute_order env q sock srv)) sock)
                  = readyState (sockets (manager srv) sock))
          \<and> (order_rows srv (uuid env) = None \<and> uuid env \<notin> job_id ` set (jobs srv)
               \<and> fault_create env = None \<and> fault_enqueue env = None \<longrightarrow>
                order_rows (execute_order env q sock srv) (uuid env)
                  = Some (created_order (uuid env) tIn tOut (query_amount q) oType)
              \<and> jobs (execute_order env q sock srv)
                  = jobs srv @ [queued_job (uuid env) tIn tOut (query_amount q) oType]
              \<and> (readyState (sockets (manager srv) sock) = OPEN
                   \<and> map_of (connections (manager srv)) (uuid env) = None \<longrightarrow>
                    sent (sockets (manager (execute_order env q sock srv)) sock)
                      = sent (sockets (manager srv) sock) @ [pending_response (uuid env)]))))
    \<and> (query_tokenIn q = Some tIn \<and> tIn \<noteq> [] \<and> query_tokenOut q = Some tOut \<and> tOut \<noteq> []
        \<and> query_orderType q = Some oType \<and> oType \<noteq> [] \<and> query_amount q = Num x \<and> x < 0
        \<and> order_rows srv (uuid env) = None \<and> uuid env \<notin> job_id ` set (jobs srv)
        \<and> fault_create env = None \<and> fault_enqueue env = None
       \<longrightarrow> order_rows (execute_order env q sock srv) (uuid env)
             = Some (created_order (uuid env) tIn tOut (Num x) oType)
         \<and> negative (amount (created_order (uuid env) tIn tOut (Num x) oType))
         \<and> jobs (execute_order env q sock srv)
             = jobs srv @ [queued_job (uuid env) tIn tOut (Num x) oType])"
proof (intro conjI)
  let ?falsy = "falsy_string (query_tokenIn q) \<or> falsy_string (query_tokenOut q)
     \<or> falsy_number (query_amount q) \<or> falsy_string (query_orderType q)"
  let ?rejected = "srv\<lparr> manager := socket_close sock
                    (socket_send sock (ErrorResponse missing_parameters None) (manager srv)) \<rparr>"
  show "if query_tokenIn q = None \<or> query_tokenIn q = Some []
        \<or> query_tokenOut q = None \<or> query_tokenOut q = Some []
        \<or> query_orderType q = None \<or> query_orderType q = Some []
        \<or> query_amount q = NaN \<or> query_amount q = Num 0
     then execute_order env q sock srv
            = srv\<lparr> manager := socket_close sock
                    (socket_send sock (ErrorResponse missing_parameters None) (manager srv)) \<rparr>
        \<and> order_rows (execute_order env q sock srv) = order_rows srv
        \<and> jobs (execute_order env q sock srv) = jobs srv
        \<and> connections (manager (execute_order env q sock srv)) = connections (manager srv)
        \<and> (readyState (sockets (manager srv) sock) = OPEN \<longrightarrow>
              sent (sockets (manager (execute_order env q sock srv)) sock)
                = sent (sockets (manager srv) sock) @ [ErrorResponse missing_parameters None]
            \<and> readyState (sockets (manager (execute_order env q sock srv)) sock) = CLOSING)
     else (\<exists>tIn tOut oType.
            query_tokenIn q = Some tIn \<and> query_tokenOut q = Some tOut
          \<and> query_orderType q = Some oType
          \<and> map_of (connections (manager (execute_order env q sock srv))) (uuid env) = Some sock
          \<and> (\<exists>fs. sent (sockets (manager (execute_order env q sock srv)) sock)
                     = sent (sockets (manager srv) sock) @ fs
                \<and> ErrorResponse missing_parameters None \<notin> set fs
                \<and> (readyState (sockets (manager srv) sock) = OPEN
                      \<and> map_of (connections (manager srv)) (uuid env) = None
                    \<longrightarrow> fs \<noteq> [] \<and> hd fs = pending_response (uuid env)))
          \<and> (map_of (connections (manager srv)) (uuid env) = None \<longrightarrow>
                readyState (sockets (manager (execute_order env q sock srv)) sock)
                  = readyState (sockets (manager srv) sock))
          \<and> (order_rows srv (uuid env) = None \<and> uuid env \<notin> job_id ` set (jobs srv)
               \<and> fault_create env = None \<and> fault_enqueue env = None \<longrightarrow>
                order_rows (execute_order env q sock srv) (uuid env)
                  = Some (created_order (uuid env) tIn tOut (query_amount q) oType)
              \<and> jobs (execute_order env q sock srv)
                  = jobs srv @ [queued_job (uuid env) tIn tOut (query_amount q) oType]
              \<and> (readyState (sockets (manager srv) sock) = OPEN
                   \<and> map_of (connections (manager srv)) (uuid env) = None \<longrightarrow>
                    sent (sockets (manager (execute_order env q sock srv)) sock)
                      = sent (sockets (manager srv) sock) @ [pending_response (uuid env)])))"
  proof (cases ?falsy)
    case True
    then have cond: "query_tokenIn q = None \<or> query_tokenIn q = Some []
        \<or> query_tokenOut q = None \<or> query_tokenOut q = Some []
        \<or> query_orderType q = None \<or> query_orderType q = Some []
        \<or> query_amount q = NaN \<or> query_amount q = Num 0"
      using falsy_parameters [of q] by blast
    have run: "execute_order env q sock srv = ?rejected"
      using True by (rule execute_order_rejects)
    have "execute_order env q sock srv
            = srv\<lparr> manager := socket_close sock
                    (socket_send sock (ErrorResponse missing_parameters None) (manager srv)) \<rparr>
        \<and> order_rows (execute_order env q sock srv) = order_rows srv
        \<and> jobs (execute_order env q sock srv) = jobs srv
        \<and> connections (manager (execute_order env q sock srv)) = connections (manager srv)
        \<and> (readyState (sockets (manager srv) sock) = OPEN \<longrightarrow>
              sent (sockets (manager (execute_order env q sock srv)) sock)
                = sent (sockets (manager srv) sock) @ [ErrorResponse missing_parameters None]
            \<and> readyState (sockets (manager (execute_order env q sock srv)) sock) = CLOSING)"
      unfolding run
      using reject_connections [of sock "ErrorResponse missing_parameters None" "manager srv"]
        reject_effects [of "manager srv" sock "ErrorResponse missing_parameters None"]
      by simp
    then show ?thesis
      unfolding if_P [OF cond] .
  next
    case False
    then have cond: "\<not> (query_tokenIn q = None \<or> query_tokenIn q = Some []
        \<or> query_tokenOut q = None \<or> query_tokenOut q = Some []
        \<or> query_orderType q = None \<or> query_orderType q = Some []
        \<or> query_amount q = NaN \<or> query_amount q = Num 0)"
      using falsy_parameters [of q] by blast
    from False obtain tIn' tOut' oType' where
      p: "query_tokenIn q = Some tIn'" "tIn' \<noteq> []" "query_tokenOut q = Some tOut'"
        "tOut' \<noteq> []" "query_orderType q = Some oType'" "oType' \<noteq> []"
        "\<not> falsy_number (query_amount q)"
      using truthy_parameters by blast
    then have run: "execute_order env q sock srv
        = accept_order env tIn' tOut' (query_amount q) oType' sock srv"
      by (rule execute_order_accepts)
    have "query_tokenIn q = Some tIn' \<and> query_tokenOut q = Some tOut'
          \<and> query_orderType q = Some oType'
          \<and> map_of (connections (manager (execute_order env q sock srv))) (uuid env) = Some sock
          \<and> (\<exists>fs. sent (sockets (manager (execute_order env q sock srv)) sock)
                     = sent (sockets (manager srv) sock) @ fs
                \<and> ErrorResponse missing_parameters None \<notin> set fs
                \<and> (readyState (sockets (manager srv) sock) = OPEN
                      \<and> map_of (connections (manager srv)) (uuid env) = None
                    \<longrightarrow> fs \<noteq> [] \<and> hd fs = pending_response (uuid env)))
          \<and> (map_of (connections (manager srv)) (uuid env) = None \<longrightarrow>
                readyState (sockets (manager (execute_order env q sock srv)) sock)
                  = readyState (sockets (manager srv) sock))
          \<and> (order_rows srv (uuid env) = None \<and> uuid env \<notin> job_id ` set (jobs srv)
               \<and> fault_create env = None \<and> fault_enqueue env = None \<longrightarrow>
                order_rows (execute_order env q sock srv) (uuid env)
                  = Some (created_order (uuid env) tIn' tOut' (query_amount q) oType')
              \<and> jobs (execute_order env q sock srv)
                  = jobs srv @ [queued_job (uuid env) tIn' tOut' (query_amount q) oType']
              \<and> (readyState (sockets (manager srv) sock) = OPEN
                   \<and> map_of (connections (manager srv)) (uuid env) = None \<longrightarrow>
                    sent (sockets (manager (execute_order env q sock srv)) sock)
                      = sent (sockets (manager srv) sock) @ [pending_response (uuid env)]))"
      unfolding run
      using accept_registers
          [where env = env and tIn = tIn' and tOut = tOut' and x = "query_amount q"
           and oType = oType' and sock = sock and srv = srv]
        accept_frames
          [where env = env and tIn = tIn' and tOut = tOut' and x = "query_amount q"
           and oType = oType' and sock = sock and srv = srv]
        accept_readyState
          [where env = env and tIn = tIn' and tOut = tOut' and x = "query_amount q"
           and oType = oType' and sock = sock and srv = srv]
        accept_effects
          [where env = env and tIn = tIn' and tOut = tOut' and x = "query_amount q"
           and oType = oType' and sock = sock and srv = srv]
      using p(1,3,5) by blast
    then have "(\<exists>tIn tOut oType.
            query_tokenIn q = Some tIn \<and> query_tokenOut q = Some tOut
          \<and> query_orderType q = Some oType
          \<and> map_of (connections (manager (execute_order env q sock srv))) (uuid env) = Some sock
          \<and> (\<exists>fs. sent (sockets (manager (execute_order env q sock srv)) sock)
                     = sent (sockets (manager srv) sock) @ fs
                \<and> ErrorResponse missing_parameters None \<notin> set fs
                \<and> (readyState (sockets (manager srv) sock) = OPEN
                      \<and> map_of (connections (manager srv)) (uuid env) = None
                    \<longrightarrow> fs \<noteq> [] \<and> hd fs = pending_response (uuid env)))
          \<and> (map_of (connections (manager srv)) (uuid env) = None \<longrightarrow>
                readyState (sockets (manager (execute_order env q sock srv)) sock)
                  = readyState (sockets (manager srv) sock))
          \<and> (order_rows srv (uuid env) = None \<and> uuid env \<notin> job_id ` set (jobs srv)
               \<and> fault_create env = None \<and> fault_enqueue env = None \<longrightarrow>
                order_rows (execute_order env q sock srv) (uuid env)
                  = Some (created_order (uuid env) tIn tOut (query_amount q) oType)
              \<and> jobs (execute_order env q sock srv)
                  = jobs srv @ [queued_job (uuid env) tIn tOut (query_amount q) oType]
              \<and> (readyState (sockets (manager srv) sock) = OPEN
                   \<and> map_of (connections (manager srv)) (uuid env) = None \<longrightarrow>
                    sent (sockets (manager (execute_order env q sock srv)) sock)
                      = sent (sockets (manager srv) sock) @ [pending_response (uuid env)])))"
      by - (rule exI [where x = tIn'], rule exI [where x = tOut'],
            rule exI [where x = oType'], assumption)
    then show ?thesis
      unfolding if_not_P [OF cond] .
  qed
next
  show "query_tokenIn q = Some tIn \<and> tIn \<noteq> [] \<and> query_tokenOut q = Some tOut \<and> tOut \<noteq> []
        \<and> query_orderType q = Some oType \<and> oType \<noteq> [] \<and> query_amount q = Num x \<and> x < 0
        \<and> order_rows srv (uuid env) = None \<and> uuid env \<notin> job_id ` set (jobs srv)
        \<and> fault_create env = None \<and> fault_enqueue env = None
       \<longrightarrow> order_rows (execute_order env q sock srv) (uuid env)
             = Some (created_order (uuid env) tIn tOut (Num x) oType)
         \<and> negative (amount (created_order (uuid env) tIn tOut (Num x) oType))
         \<and> jobs (execute_order env q sock srv)
             = jobs srv @ [queued_job (uuid env) tIn tOut (Num x) oType]"
  proof
    assume h: "query_tokenIn q = Some tIn \<and> tIn \<noteq> [] \<and> query_tokenOut q = Some tOut \<and> tOut \<noteq> []
        \<and> query_orderType q = Some oType \<and> oType \<noteq> [] \<and> query_amount q = Num x \<and> x < 0
        \<and> order_rows srv (uuid env) = None \<and> uuid env \<notin> job_id ` set (jobs srv)
        \<and> fault_create env = None \<and> fault_enqueue env = None"
    then have "\<not> falsy_number (query_amount q)" by (simp add: falsy_number_def)
    with h have "execute_order env q sock srv
        = accept_order env tIn tOut (query_amount q) oType sock srv"
      by (intro execute_order_accepts) simp_all
    with h have run: "execute_order env q sock srv
        = accept_order env tIn tOut (Num x) oType sock srv"
      by simp
    have neg: "negative (amount (created_order (uuid env) tIn tOut (Num x) oType))"
      using h by (simp add: created_order_def)
    from h have fresh: "fault_create env = None" "order_rows srv (uuid env) = None"
      "fault_enqueue env = None" "uuid env \<notin> job_id ` set (jobs srv)"
      by simp_all
    show "order_rows (execute_order env q sock srv) (uuid env)
             = Some (created_order (uuid env) tIn tOut (Num x) oType)
         \<and> negative (amount (created_order (uuid env) tIn tOut (Num x) oType))
         \<and> jobs (execute_order env q sock srv)
             = jobs srv @ [queued_job (uuid env) tIn tOut (Num x) oType]"
      using accept_effects(1,2)
              [OF fresh, where tIn = tIn and tOut = tOut and x = "Num x" and oType = oType
                 and sock = sock]
            neg
      by (simp only: run)
  qed
qed

theorem execute_order_validation_witness:
  "jobs (execute_order example_request (example_query NaN) 0 example_server) = []
   \<and> order_rows (execute_order example_request (example_query (Num 0)) 0 example_server)
       ''order-1'' = None
   \<and> sent (sockets (manager
        (execute_order example_request (example_query (Num 0)) 0 example_server)) 0)
       = [ErrorResponse missing_parameters None]
   \<and> map_option amount
        (order_rows (execute_order example_request (example_query (Num (- 5))) 0 example_server)
           ''order-1'')
       = Some (Num (- 5))
   \<and> map (\<lambda>j. data_amount (job_data j))
        (jobs (execute_order example_request (example_query (Num (- 5))) 0 example_server))
       = [Num (- 5)]
   \<and> map_option amount
        (order_rows (execute_order example_request (example_query Infinity) 0 example_server)
           ''order-1'')
       = Some Infinity
   \<and> sent (sockets (manager
        (execute_order example_request (example_query Infinity) 0 example_server)) 0)
       = [pending_response ''order-1'']
   \<and> readyState (sockets (manager
        (execute_order example_request (example_query Infinity) 0 example_server)) 0) = OPEN
   \<and> map_of (connections (manager
        (execute_order example_request (example_query Infinity) 0 example_server))) ''order-1''
       = Some 0"
proof -
  have old: "readyState (sockets (manager example_server) 0) = OPEN"
    "sent (sockets (manager example_server) 0) = []"
    "order_rows example_server = Map.empty" "jobs example_server = []"
    "connections (manager example_server) = []"
    by (simp_all add: example_server_def new_WebSocketManager_def fresh_socket_def)
  have env: "uuid example_request = ''order-1''" "fault_create example_request = None"
    "fault_enqueue example_request = None"
    by (simp_all add: example_request_def)
  have nan: "jobs (execute_order example_request (example_query NaN) 0 example_server) = []"
  proof -
    have c: "query_amount (example_query NaN) = NaN" by (simp add: example_query_def)
    have "jobs (execute_order example_request (example_query NaN) 0 example_server)
        = jobs example_server"
      using execute_order_validation [where q = "example_query NaN" and env = example_request
          and srv = example_server and sock = 0, THEN conjunct1]
      by (simp (no_asm_use) only: c simp_thms if_True, blast)
    then show ?thesis by (simp add: old)
  qed
  have zero: "order_rows (execute_order example_request (example_query (Num 0)) 0
                 example_server) ''order-1'' = None
      \<and> sent (sockets (manager
            (execute_order example_request (example_query (Num 0)) 0 example_server)) 0)
          = [ErrorResponse missing_parameters None]"
  proof -
    have c: "query_amount (example_query (Num 0)) = Num 0" by (simp add: example_query_def)
    have "order_rows (execute_order example_request (example_query (Num 0)) 0 example_server)
        = order_rows example_server
      \<and> (readyState (sockets (manager example_server) 0) = OPEN \<longrightarrow>
           sent (sockets (manager
              (execute_order example_request (example_query (Num 0)) 0 example_server)) 0)
            = sent (sockets (manager example_server) 0)
              @ [ErrorResponse missing_parameters None])"
      using execute_order_validation [where q = "example_query (Num 0)"
          and env = example_request and srv = example_server and sock = 0, THEN conjunct1]
      by (simp (no_asm_use) only: c simp_thms if_True, blast)
    then show ?thesis by (simp add: old)
  qed
  have neg: "map_option amount
        (order_rows (execute_order example_request (example_query (Num (- 5))) 0 example_server)
           ''order-1'')
       = Some (Num (- 5))
     \<and> map (\<lambda>j. data_amount (job_data j))
        (jobs (execute_order example_request (example_query (Num (- 5))) 0 example_server))
       = [Num (- 5)]"
    using old(3,4) env
      execute_order_validation [where q = "example_query (Num (- 5))"
        and env = example_request and srv = example_server and sock = 0
        and tIn = "''SOL''" and tOut = "''USDC''" and oType = "''MARKET''" and x = "- 5",
        THEN conjunct2]
    by (simp add: example_query_def created_order_def queued_data_def queued_job_def)
  have inf: "map_option amount
        (order_rows (execute_order example_request (example_query Infinity) 0 example_server)
           ''order-1'')
       = Some Infinity
     \<and> sent (sockets (manager
        (execute_order example_request (example_query Infinity) 0 example_server)) 0)
       = [pending_response ''order-1'']
     \<and> readyState (sockets (manager
        (execute_order example_request (example_query Infinity) 0 example_server)) 0) = OPEN
     \<and> map_of (connections (manager
        (execute_order example_request (example_query Infinity) 0 example_server))) ''order-1''
       = Some 0"
    using old env
      execute_order_validation [where q = "example_query Infinity"
        and env = example_request and srv = example_server and sock = 0, THEN conjunct1]
    by (auto simp: example_query_def created_order_def)
  from nan zero neg inf show ?thesis by simp
qed

end
